theory Spec2Isabelle
  imports Main
begin

section \<open>JavaScript values, requests and responses\<close>

text \<open>
  The service is an Express application.  A JSON value or a plain JavaScript object is a
  \<open>jsval\<close>; an object is an association list from property names to values, in the
  order the object literal lists them.  Timestamps (\<open>Date.now()\<close>, \<open>Date\<close> objects) are
  integers: milliseconds since the epoch.
\<close>

datatype jsval =
    JUndefined
  | JNull
  | JBool bool
  | JNum int
  | JStr string
  | JDate int
  | JArr "jsval list"
  | JObj "(string \<times> jsval) list"

type_synonym jsobj = "(string \<times> jsval) list"

text \<open>
  A value read from \<open>req.body\<close>, \<open>req.params\<close>, \<open>req.cookies\<close> or \<open>process.env\<close> is a string
  or absent (\<open>undefined\<close>).  \<open>truthy\<close> is JavaScript's truthiness on such a value: absent and
  the empty string are falsy.  \<open>or_else a b\<close> is \<open>a || b\<close>.
\<close>

definition truthy :: "string option \<Rightarrow> bool" where
  "truthy v = (case v of None \<Rightarrow> False | Some s \<Rightarrow> s \<noteq> [])"

definition or_else :: "string option \<Rightarrow> string option \<Rightarrow> string option" where
  "or_else a b = (if truthy a then a else b)"

text \<open>
  What \<open>res.status(n).json(body)\<close> sends, with the cookies set by \<open>res.cookie\<close> before
  it.  A response without an explicit status has status 200.
\<close>

record response =
  status :: nat
  json :: jsobj
  set_cookies :: "(string \<times> string) list"

definition json_error :: "nat \<Rightarrow> string \<Rightarrow> string \<Rightarrow> response" where
  "json_error st err cd =
     \<lparr>status = st, json = [(''error'', JStr err), (''code'', JStr cd)], set_cookies = []\<rparr>"

section \<open>Registration: the password strength check (routes/authRoutes.js)\<close>

text \<open>
  The check is the regular expression
  \<^verbatim>\<open>/^(?=.*[a-z])(?=.*[A-Z])(?=.*\d)(?=.*[@$!%*?&])[A-Za-z\d@$!%*?&]{8,}$/\<close>
  tested against the submitted password.  The character classes are ASCII ranges.
\<close>

definition is_lower :: "char \<Rightarrow> bool" where
  "is_lower c = (97 \<le> (of_char c :: nat) \<and> (of_char c :: nat) \<le> 122)"

definition is_upper :: "char \<Rightarrow> bool" where
  "is_upper c = (65 \<le> (of_char c :: nat) \<and> (of_char c :: nat) \<le> 90)"

definition is_digit :: "char \<Rightarrow> bool" where
  "is_digit c = (48 \<le> (of_char c :: nat) \<and> (of_char c :: nat) \<le> 57)"

definition is_special :: "char \<Rightarrow> bool" where
  "is_special c = (c \<in> set ''@$!%*?&'')"

text \<open>The class \<^verbatim>\<open>[A-Za-z\d@$!%*?&]\<close> of the consuming part of the expression.\<close>

definition in_class :: "char \<Rightarrow> bool" where
  "in_class c = (is_upper c \<or> is_lower c \<or> is_digit c \<or> is_special c)"

text \<open>\<^verbatim>\<open>.\<close> matches any character but a line terminator (line feed, carriage return).\<close>

definition is_line_terminator :: "char \<Rightarrow> bool" where
  "is_line_terminator c = ((of_char c :: nat) = 10 \<or> (of_char c :: nat) = 13)"

text \<open>
  \<open>lookahead cls s\<close>: the lookahead \<^verbatim>\<open>(?=.*[cls])\<close> succeeds at the start of \<open>s\<close>, that is,
  some character of the class is reached from the start over characters \<^verbatim>\<open>.\<close> matches.
\<close>

fun lookahead :: "(char \<Rightarrow> bool) \<Rightarrow> string \<Rightarrow> bool" where
  "lookahead cls [] = False"
| "lookahead cls (c # cs) = (cls c \<or> (\<not> is_line_terminator c \<and> lookahead cls cs))"

text \<open>
  \<open>passwordRegex.test(password)\<close>: the four lookaheads at position 0, then
  \<^verbatim>\<open>[A-Za-z\d@$!%*?&]{8,}$\<close> from position 0 to the end of the input.
\<close>

definition passwordRegex_test :: "string \<Rightarrow> bool" where
  "passwordRegex_test password =
     (lookahead is_lower password \<and> lookahead is_upper password \<and>
      lookahead is_digit password \<and> lookahead is_special password \<and>
      list_all in_class password \<and> 8 \<le> length password)"

text \<open>
  The validation steps of \<open>POST /auth/register\<close> that run before the database is touched:
  \<open>Some r\<close> is the early \<open>return res.status(400).json(...)\<close>, \<open>None\<close> means the handler goes
  on to the duplicate-email check.
\<close>

definition register_validation ::
  "string option \<Rightarrow> string option \<Rightarrow> string option \<Rightarrow> string option \<Rightarrow> response option" where
  "register_validation name email password confirmPassword =
     (if \<not> truthy name \<or> \<not> truthy email \<or> \<not> truthy password then
        Some (json_error 400 ''All fields required'' ''MISSING_FIELDS'')
      else if \<not> passwordRegex_test (the password) then
        Some (json_error 400
          ''Password must be 8+ chars with uppercase, lowercase, number, special char''
          ''WEAK_PASSWORD'')
      else if password \<noteq> confirmPassword then
        Some (json_error 400 ''Passwords do not match'' ''PASSWORD_MISMATCH'')
      else None)"

text \<open>
  The policy as the specification words it: length at least 8 and at least one lowercase
  letter, one uppercase letter, one digit and one special character.
\<close>

definition meetsPolicy_spec :: "string \<Rightarrow> bool" where
  "meetsPolicy_spec password =
     (8 \<le> length password \<and> list_ex is_lower password \<and> list_ex is_upper password \<and>
      list_ex is_digit password \<and> list_ex is_special password)"

section \<open>Users, requests and the environment\<close>

text \<open>
  A document of the \<open>User\<close> collection (models/user.js).  \<open>uid\<close> is \<open>_id\<close> as the
  string \<open>_id.toString()\<close> gives; \<open>password\<close> holds the bcrypt hash; \<open>lastLogin\<close> and
  \<open>lockUntil\<close> are \<open>None\<close> when the field is \<open>null\<close> or unset.
\<close>

record user =
  uid :: string
  name :: string
  email :: string
  password :: string
  role :: string
  isActive :: bool
  lastLogin :: "int option"
  loginAttempts :: int
  lockUntil :: "int option"

text \<open>The values the schema's \<open>enum\<close> admits for \<open>role\<close>.\<close>

definition role_enum :: "string list" where
  "role_enum = [''user'', ''admin'', ''manager'']"

text \<open>
  The part of an Express request the middlewares read: the \<open>Authorization\<close> header,
  the parsed cookies, the path parameters, the parsed body, the caller address, and the
  two properties \<open>protect\<close> attaches (\<open>req.user\<close>, \<open>req.token\<close>).
\<close>

record request =
  authorization :: "string option"
  cookies :: "string \<Rightarrow> string option"
  params :: "string \<Rightarrow> string option"
  body :: "string \<Rightarrow> string option"
  ip :: string
  user :: "user option"
  token :: "string option"

text \<open>\<open>process.env\<close>.\<close>

record env =
  JWT_SECRET :: "string option"
  REFRESH_SECRET :: "string option"
  NODE_ENV :: "string option"

text \<open>
  The \<open>User\<close> collection is a list of documents.  \<open>findById\<close> and \<open>findOne\<close> return the
  first match; \<open>updateOne\<close> applies an update to the stored document with the given
  \<open>_id\<close> (ids are unique in the collection).  The database is taken to be reachable:
  its own failures are not modelled.
\<close>

definition findById :: "user list \<Rightarrow> string \<Rightarrow> user option" where
  "findById users i = find (\<lambda>u. uid u = i) users"

definition findOne :: "user list \<Rightarrow> string \<Rightarrow> user option" where
  "findOne users e = find (\<lambda>u. email u = e) users"

definition updateOne :: "user list \<Rightarrow> user \<Rightarrow> (user \<Rightarrow> user) \<Rightarrow> user list" where
  "updateOne users this f = map (\<lambda>v. if uid v = uid this then f v else v) users"

text \<open>\<open>user.toObject()\<close> with \<open>password\<close> deleted, as the responses carry it.\<close>

definition user_json :: "user \<Rightarrow> jsval" where
  "user_json u = JObj
     [(''_id'', JStr (uid u)), (''name'', JStr (name u)), (''email'', JStr (email u)),
      (''role'', JStr (role u)), (''isActive'', JBool (isActive u)),
      (''lastLogin'', (case lastLogin u of None \<Rightarrow> JNull | Some t \<Rightarrow> JDate t)),
      (''loginAttempts'', JNum (loginAttempts u)),
      (''lockUntil'', (case lockUntil u of None \<Rightarrow> JNull | Some t \<Rightarrow> JDate t))]"

section \<open>The jsonwebtoken library\<close>

text \<open>
  The library is outside the repository.  Its cryptography is a pair of parameters:
  \<open>lib_sign payload secret expiresIn now\<close> is the token string, and
  \<open>lib_verify token secret now\<close> the decoded payload or the error raised.
  \<open>jwt_sign\<close> and \<open>jwt_verify\<close> add what the library does when the secret it is given
  is \<open>undefined\<close> or empty: \<open>sign\<close> throws a plain error, \<open>verify\<close> a
  \<open>JsonWebTokenError\<close>.
\<close>

datatype jwt_error = TokenExpiredError | JsonWebTokenError | OtherError

record jwt_lib =
  lib_sign :: "jsobj \<Rightarrow> string \<Rightarrow> string \<Rightarrow> int \<Rightarrow> string"
  lib_verify :: "string \<Rightarrow> string \<Rightarrow> int \<Rightarrow> jwt_error + jsobj"

definition jwt_sign ::
  "jwt_lib \<Rightarrow> jsobj \<Rightarrow> string option \<Rightarrow> string \<Rightarrow> int \<Rightarrow> jwt_error + string" where
  "jwt_sign L payload secret expiresIn now =
     (if truthy secret then Inr (lib_sign L payload (the secret) expiresIn now)
      else Inl OtherError)"

definition jwt_verify ::
  "jwt_lib \<Rightarrow> string \<Rightarrow> string option \<Rightarrow> int \<Rightarrow> jwt_error + jsobj" where
  "jwt_verify L tok secret now =
     (if truthy secret then lib_verify L tok (the secret) now else Inl JsonWebTokenError)"

text \<open>\<open>decoded.id\<close>: the \<open>id\<close> property of a payload, when it is a string.\<close>

definition decoded_id :: "jsobj \<Rightarrow> string option" where
  "decoded_id decoded = (case map_of decoded ''id'' of Some (JStr s) \<Rightarrow> Some s | _ \<Rightarrow> None)"

section \<open>The authorization middlewares (middlewares/authAdvanced.js)\<close>

text \<open>
  A middleware either calls \<open>next()\<close>, passing on the request (which \<open>protect\<close> extends),
  or ends the chain with a response.
\<close>

datatype outcome = Next request | Done response

text \<open>\<open>s.split(d)\<close> for a one-character separator, and \<open>xs[i]\<close> with \<open>undefined\<close> out
  of range.\<close>

fun js_split :: "char \<Rightarrow> string \<Rightarrow> string list" where
  "js_split d [] = [[]]"
| "js_split d (c # cs) =
     (if c = d then [] # js_split d cs
      else (case js_split d cs of [] \<Rightarrow> [[c]] | w # ws \<Rightarrow> (c # w) # ws))"

definition index :: "'a list \<Rightarrow> nat \<Rightarrow> 'a option" where
  "index xs i = (if i < length xs then Some (xs ! i) else None)"

text \<open>The token \<open>protect\<close> extracts: from the header when it starts with \<open>Bearer\<close>, else
  from the cookie \<open>accessToken\<close>, else from the cookie \<open>token\<close>.\<close>

definition extract_token :: "request \<Rightarrow> string option" where
  "extract_token req =
     (if truthy (authorization req) \<and> take 6 (the (authorization req)) = ''Bearer'' then
        index (js_split CHR '' '' (the (authorization req))) 1
      else if truthy (cookies req ''accessToken'') then cookies req ''accessToken''
      else if truthy (cookies req ''token'') then cookies req ''token''
      else None)"

definition protect :: "env \<Rightarrow> jwt_lib \<Rightarrow> user list \<Rightarrow> int \<Rightarrow> request \<Rightarrow> outcome" where
  "protect e L users now req =
     (if \<not> truthy (extract_token req) then
        Done (json_error 401 ''Not authorized to access this route'' ''NO_TOKEN'')
      else if \<not> truthy (JWT_SECRET e) then
        Done (json_error 500 ''Server misconfiguration'' ''SERVER_ERROR'')
      else
        (case jwt_verify L (the (extract_token req)) (JWT_SECRET e) now of
           Inl TokenExpiredError \<Rightarrow> Done (json_error 401 ''Token expired'' ''TOKEN_EXPIRED'')
         | Inl JsonWebTokenError \<Rightarrow> Done (json_error 401 ''Invalid token'' ''INVALID_TOKEN'')
         | Inl OtherError \<Rightarrow> Done (json_error 500 ''Authentication error'' ''AUTH_ERROR'')
         | Inr decoded \<Rightarrow>
             (case (case decoded_id decoded of None \<Rightarrow> None | Some i \<Rightarrow> findById users i) of
                None \<Rightarrow> Done (json_error 404 ''User not found'' ''USER_NOT_FOUND'')
              | Some u \<Rightarrow>
                  if \<not> isActive u then
                    Done (json_error 403 ''Account is disabled'' ''ACCOUNT_DISABLED'')
                  else Next (req\<lparr>user := Some (u\<lparr>password := []\<rparr>),
                                 token := extract_token req\<rparr>))))"

definition authorize :: "string list \<Rightarrow> request \<Rightarrow> outcome" where
  "authorize allowedRoles req =
     (case user req of
        None \<Rightarrow> Done (json_error 401 ''Authentication required'' ''NO_AUTH'')
      | Some u \<Rightarrow>
          if role u \<notin> set allowedRoles then
            Done \<lparr>status = 403,
                  json = [(''error'', JStr ''Insufficient permissions''),
                          (''code'', JStr ''FORBIDDEN''),
                          (''userRole'', JStr (role u)),
                          (''requiredRoles'', JArr (map JStr allowedRoles))],
                  set_cookies = []\<rparr>
          else Next req)"

text \<open>The role-permission mapping, an object literal inside \<open>checkPermission\<close>.\<close>

definition rolePermissions :: "(string \<times> string list) list" where
  "rolePermissions =
     [(''admin'',
         [''view_users'', ''create_users'', ''update_users'', ''delete_users'',
          ''view_reservations'', ''manage_reservations'',
          ''view_settings'', ''update_settings'',
          ''view_logs'', ''manage_admins'']),
      (''manager'',
         [''view_users'', ''view_reservations'', ''manage_reservations'',
          ''view_settings'']),
      (''user'',
         [''view_profile'', ''update_profile'',
          ''create_reservations'', ''view_own_reservations''])]"

text \<open>\<open>rolePermissions[role] || []\<close>, for a role that names an own property of the
  literal or no property at all (the schema admits only the three roles).\<close>

definition userPermissions :: "string \<Rightarrow> string list" where
  "userPermissions r = (case map_of rolePermissions r of None \<Rightarrow> [] | Some ps \<Rightarrow> ps)"

definition insufficient_permissions :: "string list \<Rightarrow> string list \<Rightarrow> response" where
  "insufficient_permissions requiredPermissions ups =
     \<lparr>status = 403,
      json = [(''error'', JStr ''Insufficient permissions''),
              (''code'', JStr ''INSUFFICIENT_PERMISSIONS''),
              (''requiredPermissions'', JArr (map JStr requiredPermissions)),
              (''userPermissions'', JArr (map JStr ups))],
      set_cookies = []\<rparr>"

definition checkPermission :: "string list \<Rightarrow> request \<Rightarrow> outcome" where
  "checkPermission requiredPermissions req =
     (case user req of
        None \<Rightarrow> Done (json_error 401 ''Authentication required'' ''NO_AUTH'')
      | Some u \<Rightarrow>
          (let hasPermission =
                 list_all (\<lambda>perm. perm \<in> set (userPermissions (role u)))
                   requiredPermissions
           in if \<not> hasPermission then
                Done (insufficient_permissions requiredPermissions (userPermissions (role u)))
              else Next req))"

text \<open>
  \<open>checkResourceOwnership\<close>.  Without \<open>req.user\<close> the read of \<open>req.user._id\<close> throws and
  the \<open>catch\<close> answers 500.
\<close>

definition checkResourceOwnership :: "request \<Rightarrow> outcome" where
  "checkResourceOwnership req =
     (case user req of
        None \<Rightarrow> Done (json_error 500 ''Permission check failed'' ''PERMISSION_ERROR'')
      | Some u \<Rightarrow>
          (let resourceId = or_else (params req ''id'') (params req ''userId'');
               requestingUserId = uid u
           in if role u = ''admin'' then Next req
              else if resourceId \<noteq> Some requestingUserId then
                Done (json_error 403 ''Cannot access this resource'' ''NOT_OWNER'')
              else Next req))"

text \<open>\<open>auditLog\<close> wraps \<open>res.send\<close> so that the response is logged when it is sent, and
  calls \<open>next()\<close>; the log line is not part of the model.\<close>

definition auditLog :: "string \<Rightarrow> string \<Rightarrow> request \<Rightarrow> outcome" where
  "auditLog action resource req = Next req"

text \<open>
  A route is a list of middlewares and a final handler.  \<open>Short r\<close>: a middleware ended
  the chain with \<open>r\<close> and the handler did not run; \<open>Handled r\<close>: every middleware called
  \<open>next()\<close> and the handler answered \<open>r\<close>.
\<close>

datatype chain_result = Short response | Handled response

fun run_chain ::
  "(request \<Rightarrow> outcome) list \<Rightarrow> (request \<Rightarrow> response) \<Rightarrow> request \<Rightarrow> chain_result" where
  "run_chain [] handler req = Handled (handler req)"
| "run_chain (m # ms) handler req =
     (case m req of Done r \<Rightarrow> Short r | Next req' \<Rightarrow> run_chain ms handler req')"

text \<open>\<open>router.put('/users/:id', protect, checkResourceOwnership, auditLog(...), handler)\<close>.\<close>

definition put_users_id ::
  "env \<Rightarrow> jwt_lib \<Rightarrow> user list \<Rightarrow> int \<Rightarrow> (request \<Rightarrow> response) \<Rightarrow> request \<Rightarrow> chain_result" where
  "put_users_id e L users now handler =
     run_chain [protect e L users now, checkResourceOwnership,
                auditLog ''UPDATE_PROFILE'' ''user''] handler"

section \<open>The login throttle (createLoginLimiter in middlewares/authAdvanced.js)\<close>

text \<open>
  The \<open>Map\<close> in the closure of the limiter: for each identifier, the timestamps of the
  attempts it has recorded.
\<close>

type_synonym attempts = "string \<Rightarrow> int list option"

text \<open>\<open>Math.min(...xs)\<close> of a non-empty array and \<open>Math.ceil(x / d)\<close> of integers, which
  are exact in floating point at the magnitudes of timestamps.\<close>

definition Math_min :: "int list \<Rightarrow> int" where
  "Math_min xs = fold min (tl xs) (hd xs)"

definition Math_ceil_div :: "int \<Rightarrow> int \<Rightarrow> int" where
  "Math_ceil_div x d = - ((- x) div d)"

text \<open>The 429 body; \<open>resetTime\<close> is a date, sent in ISO format.\<close>

definition rate_limited :: "int \<Rightarrow> int \<Rightarrow> response" where
  "rate_limited resetTime retryAfter =
     \<lparr>status = 429,
      json = [(''error'', JStr ''Too many login attempts''),
              (''code'', JStr ''RATE_LIMITED''),
              (''resetTime'', JDate resetTime),
              (''retryAfter'', JNum retryAfter)],
      set_cookies = []\<rparr>"

text \<open>
  The middleware \<open>createLoginLimiter(maxAttempts, lockoutTime)\<close> returns, as a function
  of the map, the time \<open>Date.now()\<close> and the request; it returns the outcome and the
  map.  (With \<open>maxAttempts = 0\<close> the source would take \<open>Math.min()\<close> of no arguments; the
  service creates the limiter with 5.)
\<close>

definition createLoginLimiter ::
  "nat \<Rightarrow> int \<Rightarrow> attempts \<Rightarrow> int \<Rightarrow> request \<Rightarrow> outcome \<times> attempts" where
  "createLoginLimiter maxAttempts lockoutTime attempts now req =
     (let identifier = (if truthy (body req ''email'') then the (body req ''email'')
                        else ip req);
          userAttempts = (case attempts identifier of None \<Rightarrow> [] | Some ts \<Rightarrow> ts);
          recentAttempts = filter (\<lambda>time. now - time < lockoutTime) userAttempts
      in if maxAttempts \<le> length recentAttempts then
           (let oldestAttempt = Math_min recentAttempts;
                resetTime = oldestAttempt + lockoutTime
            in (Done (rate_limited resetTime
                        (Math_ceil_div (oldestAttempt + lockoutTime - now) 1000)),
                attempts))
         else (Next req, attempts(identifier \<mapsto> recentAttempts @ [now])))"

text \<open>\<open>const loginLimiter = createLoginLimiter(5, 15 * 60 * 1000)\<close> (routes/authRoutes.js).\<close>

definition loginLimiter :: "attempts \<Rightarrow> int \<Rightarrow> request \<Rightarrow> outcome \<times> attempts" where
  "loginLimiter = createLoginLimiter 5 (15 * 60 * 1000)"

text \<open>The identifier the limiter files a request under: \<open>req.body.email || req.ip\<close>.\<close>

definition identifier_of :: "request \<Rightarrow> string" where
  "identifier_of req =
     (if truthy (body req ''email'') then the (body req ''email'') else ip req)"

text \<open>The limiter over a sequence of requests, each with its arrival time.\<close>

fun limiter_run :: "attempts \<Rightarrow> (int \<times> request) list \<Rightarrow> outcome list \<times> attempts" where
  "limiter_run a [] = ([], a)"
| "limiter_run a ((now, req) # evs) =
     (case loginLimiter a now req of
        (out, a') \<Rightarrow> (case limiter_run a' evs of (outs, a'') \<Rightarrow> (out # outs, a'')))"

text \<open>
  What the map holds for an identifier (\<open>attempts.get(identifier) || []\<close>), the part of
  it inside the trailing 15-minute window at \<open>now\<close> (\<open>recentAttempts\<close>), and the outcomes
  that are a 429.  Every list the limiter stores has at most 5 entries: \<open>reachable\<close>.
\<close>

definition recorded :: "attempts \<Rightarrow> string \<Rightarrow> int list" where
  "recorded a k = (case a k of None \<Rightarrow> [] | Some ts \<Rightarrow> ts)"

definition recent :: "attempts \<Rightarrow> int \<Rightarrow> string \<Rightarrow> int list" where
  "recent a now k = filter (\<lambda>time. now - time < 15 * 60 * 1000) (recorded a k)"

definition rejected :: "outcome \<Rightarrow> bool" where
  "rejected out = (case out of Done r \<Rightarrow> status r = 429 | Next req \<Rightarrow> False)"

definition reachable :: "attempts \<Rightarrow> bool" where
  "reachable a = (\<forall>k. length (recorded a k) \<le> 5)"

section \<open>Account lockout (models/user.js)\<close>

text \<open>
  The virtual \<open>isLocked\<close> and the methods \<open>incLoginAttempts\<close> and \<open>resetLoginAttempts\<close>,
  at the time \<open>now\<close> that \<open>Date.now()\<close> returns.  The two methods end in \<open>updateOne\<close>;
  the functions give the stored document after the update.
\<close>

definition isLocked :: "user \<Rightarrow> int \<Rightarrow> bool" where
  "isLocked this now = (case lockUntil this of None \<Rightarrow> False | Some t \<Rightarrow> now < t)"

definition incLoginAttempts :: "int \<Rightarrow> user \<Rightarrow> user" where
  "incLoginAttempts now this =
     (if (case lockUntil this of None \<Rightarrow> False | Some t \<Rightarrow> t < now) then
        this\<lparr>loginAttempts := 1, lockUntil := None\<rparr>
      else
        (let maxAttempts = 5; lockTime = 30 * 60 * 1000 in
         if maxAttempts \<le> loginAttempts this + 1 \<and> \<not> isLocked this now then
           this\<lparr>loginAttempts := loginAttempts this + 1, lockUntil := Some (now + lockTime)\<rparr>
         else this\<lparr>loginAttempts := loginAttempts this + 1\<rparr>))"

definition resetLoginAttempts :: "int \<Rightarrow> user \<Rightarrow> user" where
  "resetLoginAttempts now this =
     this\<lparr>loginAttempts := 0, lastLogin := Some now, lockUntil := None\<rparr>"

section \<open>Login and token refresh (routes/authRoutes.js)\<close>

text \<open>\<open>String.prototype.toLowerCase\<close> on ASCII text.\<close>

definition toLowerCase :: "string \<Rightarrow> string" where
  "toLowerCase s = map (\<lambda>c. if is_upper c then char_of (of_char c + (32::nat)) else c) s"

text \<open>The secret both routes use for refresh tokens:
  \<open>process.env.REFRESH_SECRET || process.env.JWT_SECRET\<close>.\<close>

definition refresh_secret :: "env \<Rightarrow> string option" where
  "refresh_secret e = or_else (REFRESH_SECRET e) (JWT_SECRET e)"

definition account_locked :: "int option \<Rightarrow> response" where
  "account_locked unlockTime =
     \<lparr>status = 403,
      json = [(''error'', JStr ''Account locked. Try again later.''),
              (''code'', JStr ''ACCOUNT_LOCKED''),
              (''unlockTime'', (case unlockTime of None \<Rightarrow> JNull | Some t \<Rightarrow> JDate t))],
      set_cookies = []\<rparr>"

definition login_successful :: "string \<Rightarrow> string \<Rightarrow> user \<Rightarrow> response" where
  "login_successful accessToken refreshToken u =
     \<lparr>status = 200,
      json = [(''message'', JStr ''Login successful''),
              (''accessToken'', JStr accessToken),
              (''user'', user_json u)],
      set_cookies = [(''accessToken'', accessToken), (''refreshToken'', refreshToken)]\<rparr>"

text \<open>
  The handler of \<open>POST /auth/login\<close>.  \<open>compare\<close> is \<open>bcrypt.compare\<close>.  The handler returns
  the response and the collection: a failed verification stores \<open>incLoginAttempts\<close>, a
  successful one \<open>resetLoginAttempts\<close>, before the tokens are signed.  An exception of
  \<open>jwt.sign\<close> is caught and answered with 500.
\<close>

definition login_handler ::
  "env \<Rightarrow> jwt_lib \<Rightarrow> (string \<Rightarrow> string \<Rightarrow> bool) \<Rightarrow> user list \<Rightarrow> int \<Rightarrow> request \<Rightarrow>
   response \<times> user list" where
  "login_handler e L compare users now req =
     (if \<not> truthy (body req ''email'') \<or> \<not> truthy (body req ''password'') then
        (json_error 400 ''Email and password required'' ''MISSING_CREDENTIALS'', users)
      else
        (case findOne users (toLowerCase (the (body req ''email''))) of
           None \<Rightarrow> (json_error 401 ''Invalid credentials'' ''INVALID_CREDENTIALS'', users)
         | Some u \<Rightarrow>
             if isLocked u now then (account_locked (lockUntil u), users)
             else if \<not> compare (the (body req ''password'')) (password u) then
               (json_error 401 ''Invalid credentials'' ''INVALID_CREDENTIALS'',
                updateOne users u (incLoginAttempts now))
             else
               (let users' = updateOne users u (resetLoginAttempts now) in
                case jwt_sign L
                       [(''id'', JStr (uid u)), (''email'', JStr (email u)),
                        (''role'', JStr (role u))]
                       (JWT_SECRET e) ''15m'' now of
                  Inl err \<Rightarrow> (json_error 500 ''Login failed'' ''LOGIN_ERROR'', users')
                | Inr accessToken \<Rightarrow>
                    (case jwt_sign L [(''id'', JStr (uid u))] (refresh_secret e) ''7d'' now of
                       Inl err \<Rightarrow> (json_error 500 ''Login failed'' ''LOGIN_ERROR'', users')
                     | Inr refreshToken \<Rightarrow>
                         (login_successful accessToken refreshToken u, users')))))"

text \<open>
  \<open>router.post('/auth/login', loginLimiter, auditLog('LOGIN', 'user'), handler)\<close>: the
  state is the limiter's map and the collection.
\<close>

definition post_auth_login ::
  "env \<Rightarrow> jwt_lib \<Rightarrow> (string \<Rightarrow> string \<Rightarrow> bool) \<Rightarrow> attempts \<times> user list \<Rightarrow> int \<Rightarrow> request \<Rightarrow>
   response \<times> (attempts \<times> user list)" where
  "post_auth_login e L compare st now req =
     (case loginLimiter (fst st) now req of
        (Done r, a) \<Rightarrow> (r, (a, snd st))
      | (Next req', a) \<Rightarrow>
          (case auditLog ''LOGIN'' ''user'' req' of
             Done r \<Rightarrow> (r, (a, snd st))
           | Next req'' \<Rightarrow>
               (case login_handler e L compare (snd st) now req'' of
                  (r, users') \<Rightarrow> (r, (a, users')))))"

text \<open>The login route over a sequence of requests, each with its arrival time.\<close>

fun login_run ::
  "env \<Rightarrow> jwt_lib \<Rightarrow> (string \<Rightarrow> string \<Rightarrow> bool) \<Rightarrow> attempts \<times> user list \<Rightarrow>
   (int \<times> request) list \<Rightarrow> response list \<times> (attempts \<times> user list)" where
  "login_run e L compare st [] = ([], st)"
| "login_run e L compare st ((now, req) # evs) =
     (case post_auth_login e L compare st now req of
        (r, st') \<Rightarrow> (case login_run e L compare st' evs of (rs, st'') \<Rightarrow> (r # rs, st'')))"

text \<open>The handler alone over a sequence of requests that reached it.\<close>

fun handler_run ::
  "env \<Rightarrow> jwt_lib \<Rightarrow> (string \<Rightarrow> string \<Rightarrow> bool) \<Rightarrow> user list \<Rightarrow>
   (int \<times> request) list \<Rightarrow> response list \<times> user list" where
  "handler_run e L compare users [] = ([], users)"
| "handler_run e L compare users ((now, req) # evs) =
     (case login_handler e L compare users now req of
        (r, users') \<Rightarrow>
          (case handler_run e L compare users' evs of (rs, users'') \<Rightarrow> (r # rs, users'')))"

text \<open>The handler of \<open>POST /auth/refresh-token\<close>; every exception is answered with 401
  REFRESH_FAILED.\<close>

definition refresh_token_handler ::
  "env \<Rightarrow> jwt_lib \<Rightarrow> user list \<Rightarrow> int \<Rightarrow> request \<Rightarrow> response" where
  "refresh_token_handler e L users now req =
     (let refreshToken = or_else (cookies req ''refreshToken'') (body req ''refreshToken'') in
      if \<not> truthy refreshToken then
        json_error 401 ''Refresh token required'' ''NO_REFRESH_TOKEN''
      else
        (case jwt_verify L (the refreshToken) (refresh_secret e) now of
           Inl err \<Rightarrow> json_error 401 ''Token refresh failed'' ''REFRESH_FAILED''
         | Inr decoded \<Rightarrow>
             (case (case decoded_id decoded of None \<Rightarrow> None | Some i \<Rightarrow> findById users i) of
                None \<Rightarrow> json_error 401 ''Invalid refresh token'' ''INVALID_REFRESH_TOKEN''
              | Some u \<Rightarrow>
                  if \<not> isActive u then
                    json_error 401 ''Invalid refresh token'' ''INVALID_REFRESH_TOKEN''
                  else
                    (case jwt_sign L
                            [(''id'', JStr (uid u)), (''email'', JStr (email u)),
                             (''role'', JStr (role u))]
                            (JWT_SECRET e) ''15m'' now of
                       Inl err \<Rightarrow> json_error 401 ''Token refresh failed'' ''REFRESH_FAILED''
                     | Inr newAccessToken \<Rightarrow>
                         \<lparr>status = 200,
                          json = [(''message'', JStr ''Token refreshed''),
                                  (''accessToken'', JStr newAccessToken)],
                          set_cookies = [(''accessToken'', newAccessToken)]\<rparr>))))"

text \<open>
  A login request addresses the account with email \<open>em\<close> when it carries an email that
  lower-cases to \<open>em\<close> and a password; its password is wrong for \<open>u\<close> when
  \<open>bcrypt.compare\<close> rejects it against \<open>u\<close>'s hash.  \<open>empty_attempts\<close> is the limiter's
  map when the process starts.
\<close>

definition addresses :: "string \<Rightarrow> request \<Rightarrow> bool" where
  "addresses em req =
     (truthy (body req ''email'') \<and> truthy (body req ''password'') \<and>
      toLowerCase (the (body req ''email'')) = em)"

definition wrong_password :: "(string \<Rightarrow> string \<Rightarrow> bool) \<Rightarrow> user \<Rightarrow> request \<Rightarrow> bool" where
  "wrong_password compare u req = (\<not> compare (the (body req ''password'')) (password u))"

definition empty_attempts :: attempts where
  "empty_attempts = (\<lambda>k. None)"

section \<open>The reservation store adapter (models/reservation.js)\<close>

text \<open>
  Plain JavaScript on \<open>jsval\<close>: truthiness, \<open>a || b\<close>, property access (\<open>undefined\<close> for
  a missing property), and \<open>String(v)\<close> / \<open>v.toString()\<close> on the values an id takes, a
  string or a non-negative number.
\<close>

definition js_truthy :: "jsval \<Rightarrow> bool" where
  "js_truthy v =
     (case v of JUndefined \<Rightarrow> False | JNull \<Rightarrow> False | JBool b \<Rightarrow> b | JNum n \<Rightarrow> n \<noteq> 0
      | JStr s \<Rightarrow> s \<noteq> [] | _ \<Rightarrow> True)"

definition js_or :: "jsval \<Rightarrow> jsval \<Rightarrow> jsval" where
  "js_or a b = (if js_truthy a then a else b)"

definition js_get :: "jsobj \<Rightarrow> string \<Rightarrow> jsval" where
  "js_get obj k = (case map_of obj k of None \<Rightarrow> JUndefined | Some v \<Rightarrow> v)"

definition digit_char :: "nat \<Rightarrow> char" where
  "digit_char d = ''0123456789'' ! d"

fun decimal :: "nat \<Rightarrow> string \<Rightarrow> string" where
  "decimal n acc =
     (if n < 10 then digit_char n # acc
      else decimal (n div 10) (digit_char (n mod 10) # acc))"

declare decimal.simps [simp del]

definition number_toString :: "nat \<Rightarrow> string" where
  "number_toString n = decimal n []"

definition js_String :: "jsval \<Rightarrow> string" where
  "js_String v = (case v of JStr s \<Rightarrow> s | JNum n \<Rightarrow> number_toString (nat n) | _ \<Rightarrow> [])"

text \<open>
  \<open>mapRow\<close>: from a row of the table \<open>reservations\<close> (columns in snake case) to the
  object the adapter returns.  \<open>_id\<close> is \<open>row.id?.toString() || null\<close>.
\<close>

definition mapRow :: "jsobj \<Rightarrow> jsobj" where
  "mapRow row =
     [(''_id'', (case js_get row ''id'' of
                   JUndefined \<Rightarrow> JNull
                 | JNull \<Rightarrow> JNull
                 | v \<Rightarrow> js_or (JStr (js_String v)) JNull)),
      (''userId'', js_get row ''user_id''),
      (''name'', js_get row ''name''),
      (''email'', js_get row ''email''),
      (''phone'', js_get row ''phone''),
      (''date'', js_get row ''date''),
      (''time'', js_get row ''time''),
      (''guests'', js_get row ''guests''),
      (''specialRequests'', js_get row ''special_requests''),
      (''club'', js_get row ''club''),
      (''clubLocation'', js_get row ''club_location''),
      (''status'', js_get row ''status''),
      (''createdAt'', js_get row ''created_at''),
      (''updatedAt'', js_get row ''updated_at'')]"

text \<open>The paths \<open>reservationSchema\<close> declares for the document store; Mongoose adds
  \<open>_id\<close>.  \<open>reservation_fields\<close> are the field names of the adapter's contract.\<close>

definition reservationSchema :: "string list" where
  "reservationSchema =
     [''userId'', ''name'', ''email'', ''phone'', ''date'', ''time'', ''guests'',
      ''specialRequests'', ''club'', ''clubLocation'', ''status'', ''createdAt'',
      ''updatedAt'']"

definition reservation_fields :: "string list" where
  "reservation_fields = ''_id'' # reservationSchema"

text \<open>
  An instance of the class \<open>Reservation\<close>: \<open>_data\<close> and \<open>_id\<close>.  The constructor copies
  the data and takes \<open>data._id || data.id || null\<close> as id.
\<close>

record reservation =
  data :: jsobj
  rid :: jsval

definition new_Reservation :: "jsobj \<Rightarrow> reservation" where
  "new_Reservation d = \<lparr>data = d, rid = js_or (js_or (js_get d ''_id'') (js_get d ''id'')) JNull\<rparr>"

text \<open>
  The relational table: its rows, each an object with the columns of
  \<open>db.postgres.js\<close>, and the next value of the \<open>SERIAL\<close> column \<open>id\<close>.  The three
  statements the adapter sends are modelled on it.  Other database failures than a
  rejected id parameter are not modelled.
\<close>

record pg_table =
  rows :: "jsobj list"
  serial :: int

text \<open>
  The id parameter of a statement is compared with the column \<open>id\<close>, a \<open>SERIAL\<close>, that
  is, a 32-bit integer.  PostgreSQL reads the parameter's text as such an integer:
  blanks (space, tab, line feed, vertical tab, form feed, carriage return) around it, an
  optional sign, then decimal digits, and a value from -2147483648 to 2147483647.  Any
  other text makes it reject the statement: \<open>None\<close>, an exception in the source.
\<close>

definition is_blank :: "char \<Rightarrow> bool" where
  "is_blank c = ((of_char c :: nat) = 32 \<or> (9 \<le> (of_char c :: nat) \<and> (of_char c :: nat) \<le> 13))"

definition trim_blanks :: "string \<Rightarrow> string" where
  "trim_blanks s = rev (dropWhile is_blank (rev (dropWhile is_blank s)))"

definition digits_value :: "string \<Rightarrow> nat" where
  "digits_value ds = foldl (\<lambda>a c. 10 * a + (of_char c - 48)) 0 ds"

definition in_int4 :: "int \<Rightarrow> bool" where
  "in_int4 v = (- 2147483648 \<le> v \<and> v \<le> 2147483647)"

definition parse_int4 :: "string \<Rightarrow> int option" where
  "parse_int4 s =
     (let t = trim_blanks s;
          signed = (t \<noteq> [] \<and> (hd t = CHR ''-'' \<or> hd t = CHR ''+''));
          ds = (if signed then tl t else t);
          v = (if signed \<and> hd t = CHR ''-'' then - int (digits_value ds)
               else int (digits_value ds))
      in if ds \<noteq> [] \<and> list_all is_digit ds \<and> in_int4 v then Some v else None)"

text \<open>A number is sent as its decimal text; \<open>undefined\<close>, \<open>null\<close> and the other values are
  no integer.\<close>

definition id_param :: "jsval \<Rightarrow> int option" where
  "id_param v =
     (case v of
        JNum n \<Rightarrow> if in_int4 n then Some n else None
      | JStr s \<Rightarrow> parse_int4 s
      | _ \<Rightarrow> None)"

definition has_id :: "int \<Rightarrow> jsobj \<Rightarrow> bool" where
  "has_id i row = (js_get row ''id'' = JNum i)"

definition set_columns :: "jsobj \<Rightarrow> jsobj \<Rightarrow> jsobj" where
  "set_columns sets row =
     map (\<lambda>(k, v). (k, (case map_of sets k of None \<Rightarrow> v | Some v' \<Rightarrow> v'))) row"

text \<open>\<open>UPDATE reservations SET ... WHERE id = $n RETURNING *\<close>: the rows returned and
  the table.\<close>

definition sql_update :: "pg_table \<Rightarrow> jsobj \<Rightarrow> jsval \<Rightarrow> (jsobj list \<times> pg_table) option" where
  "sql_update db sets i =
     (case id_param i of
        None \<Rightarrow> None
      | Some n \<Rightarrow>
          Some (map (set_columns sets) (filter (has_id n) (rows db)),
                db\<lparr>rows := map (\<lambda>row. if has_id n row then set_columns sets row else row)
                               (rows db)\<rparr>))"

text \<open>\<open>INSERT INTO reservations (...) VALUES (..., NOW(), NOW()) RETURNING *\<close>.\<close>

definition sql_insert :: "pg_table \<Rightarrow> int \<Rightarrow> jsval list \<Rightarrow> jsobj list \<times> pg_table" where
  "sql_insert db now ps =
     (let row = (''id'', JNum (serial db)) #
                zip [''user_id'', ''name'', ''email'', ''phone'', ''date'', ''time'',
                     ''guests'', ''special_requests'', ''club'', ''club_location'',
                     ''status'']
                    (map (\<lambda>v. if v = JUndefined then JNull else v) ps) @
                [(''created_at'', JDate now), (''updated_at'', JDate now)]
      in ([row], db\<lparr>rows := rows db @ [row], serial := serial db + 1\<rparr>))"

text \<open>\<open>DELETE FROM reservations WHERE id = $1 RETURNING *\<close>.\<close>

definition sql_delete :: "pg_table \<Rightarrow> jsval \<Rightarrow> (jsobj list \<times> pg_table) option" where
  "sql_delete db i =
     (case id_param i of
        None \<Rightarrow> None
      | Some n \<Rightarrow>
          Some (filter (has_id n) (rows db),
                db\<lparr>rows := filter (\<lambda>row. \<not> has_id n row) (rows db)\<rparr>))"

text \<open>The keys \<open>save\<close> may update, and the column of each.\<close>

definition allowed :: "string list" where
  "allowed = [''name'', ''email'', ''phone'', ''date'', ''time'', ''guests'',
              ''specialRequests'', ''club'', ''clubLocation'', ''status'']"

definition column :: "string \<Rightarrow> string" where
  "column key =
     (if key = ''specialRequests'' then ''special_requests''
      else if key = ''clubLocation'' then ''club_location'' else key)"

text \<open>
  The document-store backend is Mongoose, outside the repository: what its three calls
  return is a parameter.
\<close>

record mongo =
  mongo_save :: "jsobj \<Rightarrow> jsobj"
  mongo_findByIdAndUpdate :: "jsval \<Rightarrow> jsobj \<Rightarrow> jsval"
  mongo_findByIdAndDelete :: "jsval \<Rightarrow> jsval"

text \<open>
  \<open>save()\<close>, with the flag \<open>usePostgres\<close>, the table and the time: the instance
  returned and the table, or \<open>None\<close> for an exception.
\<close>

definition save ::
  "bool \<Rightarrow> mongo \<Rightarrow> pg_table \<Rightarrow> int \<Rightarrow> reservation \<Rightarrow> (reservation \<times> pg_table) option" where
  "save usePostgres M db now this =
     (if \<not> usePostgres then
        (let saved = mongo_save M (data this) in
         Some (\<lparr>data = saved, rid = js_get saved ''_id''\<rparr>, db))
      else if js_truthy (rid this) then
        (let sets = map (\<lambda>key. (column key, js_get (data this) key))
                      (filter (\<lambda>key. js_get (data this) key \<noteq> JUndefined) allowed) @
                    [(''updated_at'', JDate now)]
         in case sql_update db sets (rid this) of
              None \<Rightarrow> None
            | Some ([], db') \<Rightarrow> Some (this, db')
            | Some (row # others, db') \<Rightarrow>
                Some (\<lparr>data = mapRow row, rid = js_get (mapRow row) ''_id''\<rparr>, db'))
      else
        (let ps = [if js_truthy (js_get (data this) ''userId'')
                   then JStr (js_String (js_get (data this) ''userId'')) else JNull,
                   js_get (data this) ''name'',
                   js_get (data this) ''email'',
                   js_get (data this) ''phone'',
                   js_get (data this) ''date'',
                   js_get (data this) ''time'',
                   js_get (data this) ''guests'',
                   js_or (js_get (data this) ''specialRequests'') JNull,
                   js_get (data this) ''club'',
                   js_or (js_get (data this) ''clubLocation'') JNull,
                   js_or (js_get (data this) ''status'') (JStr ''confirmed'')]
         in case sql_insert db now ps of
              (res, db') \<Rightarrow>
                Some (\<lparr>data = mapRow (hd res), rid = js_get (mapRow (hd res)) ''_id''\<rparr>, db')))"

text \<open>\<open>Reservation.findByIdAndUpdate(id, update)\<close>: what it resolves to, and the table.\<close>

definition findByIdAndUpdate ::
  "bool \<Rightarrow> mongo \<Rightarrow> pg_table \<Rightarrow> int \<Rightarrow> jsval \<Rightarrow> jsobj \<Rightarrow> (jsval \<times> pg_table) option" where
  "findByIdAndUpdate usePostgres M db now i update =
     (if \<not> usePostgres then Some (mongo_findByIdAndUpdate M i update, db)
      else
        (let inst = (new_Reservation update)\<lparr>rid := i\<rparr> in
         case save usePostgres M db now inst of
           None \<Rightarrow> None
         | Some (updated, db') \<Rightarrow> Some (JObj (data updated), db')))"

text \<open>\<open>Reservation.findByIdAndDelete(id)\<close>.\<close>

definition findByIdAndDelete ::
  "bool \<Rightarrow> mongo \<Rightarrow> pg_table \<Rightarrow> jsval \<Rightarrow> (jsval \<times> pg_table) option" where
  "findByIdAndDelete usePostgres M db i =
     (if \<not> usePostgres then Some (mongo_findByIdAndDelete M i, db)
      else
        (case sql_delete db i of
           None \<Rightarrow> None
         | Some ([], db') \<Rightarrow> Some (JNull, db')
         | Some (row # others, db') \<Rightarrow> Some (JObj (mapRow row), db')))"

text \<open>
  The handler of \<open>PUT /admin/reservations/:id\<close> (api/apiRoutes.js), after its
  middlewares: it validates the status, updates, and answers 404 when the adapter
  resolves to a falsy value.
\<close>

definition put_admin_reservation ::
  "bool \<Rightarrow> mongo \<Rightarrow> pg_table \<Rightarrow> int \<Rightarrow> request \<Rightarrow> response \<times> pg_table" where
  "put_admin_reservation usePostgres M db now req =
     (if body req ''status'' \<notin> Some ` set [''confirmed'', ''cancelled'', ''completed''] then
        (json_error 400 ''Invalid status'' ''INVALID_STATUS'', db)
      else
        (case findByIdAndUpdate usePostgres M db now
                (case params req ''id'' of None \<Rightarrow> JUndefined | Some i \<Rightarrow> JStr i)
                [(''status'', JStr (the (body req ''status''))), (''updatedAt'', JNum now)] of
           None \<Rightarrow> (json_error 500 ''Failed to update reservation'' ''UPDATE_ERROR'', db)
         | Some (reservation, db') \<Rightarrow>
             if \<not> js_truthy reservation then
               (json_error 404 ''Reservation not found'' ''NOT_FOUND'', db')
             else
               (\<lparr>status = 200,
                 json = [(''message'', JStr ''Reservation updated''),
                         (''reservation'', reservation)],
                 set_cookies = []\<rparr>, db')))"

section \<open>Example data\<close>

text \<open>
  A configuration, three accounts and a stand-in for the token library, used to evaluate
  the definitions on concrete requests.  A token of the stand-in is the subject id, the
  expiry and the signing key joined by dots; verification compares the key.  The hash of
  a password \<open>p\<close> is written \<open>hash(p)\<close>, and \<open>demo_compare\<close> stands for \<open>bcrypt.compare\<close>.
\<close>

definition demo_env :: env where
  "demo_env = \<lparr>JWT_SECRET = Some ''access-secret'', REFRESH_SECRET = None, NODE_ENV = None\<rparr>"

definition john :: user where
  "john = \<lparr>uid = ''u1'', name = ''John Doe'', email = ''john@example.com'',
           password = ''hash(SecurePass123!)'', role = ''user'', isActive = True,
           lastLogin = None, loginAttempts = 0, lockUntil = None\<rparr>"

definition mia :: user where
  "mia = \<lparr>uid = ''u2'', name = ''Mia'', email = ''mia@example.com'',
          password = ''hash(Manager#2024)'', role = ''manager'', isActive = True,
          lastLogin = None, loginAttempts = 0, lockUntil = None\<rparr>"

definition root :: user where
  "root = \<lparr>uid = ''u9'', name = ''Root'', email = ''root@example.com'',
           password = ''hash(Adm1n!Pass)'', role = ''admin'', isActive = True,
           lastLogin = None, loginAttempts = 0, lockUntil = None\<rparr>"

definition demo_users :: "user list" where
  "demo_users = [john, mia, root]"

definition demo_jwt :: jwt_lib where
  "demo_jwt =
     \<lparr>lib_sign = (\<lambda>payload secret expiresIn now.
         (case decoded_id payload of None \<Rightarrow> [] | Some i \<Rightarrow> i) @ ''.'' @ expiresIn @ ''.'' @ secret),
      lib_verify = (\<lambda>tok secret now.
         (case js_split CHR ''.'' tok of
            [i, x, k] \<Rightarrow> if k = secret then Inr [(''id'', JStr i)] else Inl JsonWebTokenError
          | _ \<Rightarrow> Inl JsonWebTokenError))\<rparr>"

definition demo_compare :: "string \<Rightarrow> string \<Rightarrow> bool" where
  "demo_compare p h = (h = ''hash('' @ p @ '')'')"

text \<open>A request with a bearer token for the path parameter \<open>id\<close>.\<close>

definition bearer_request :: "string \<Rightarrow> string \<Rightarrow> request" where
  "bearer_request tok i =
     \<lparr>authorization = Some (''Bearer '' @ tok), cookies = (\<lambda>k. None),
      params = [''id'' \<mapsto> i], body = (\<lambda>k. None), ip = ''203.0.113.7'',
      user = None, token = None\<rparr>"

text \<open>A login request with the given email and password.\<close>

definition login_request :: "string \<Rightarrow> string \<Rightarrow> request" where
  "login_request em pw =
     \<lparr>authorization = None, cookies = (\<lambda>k. None), params = (\<lambda>k. None),
      body = [''email'' \<mapsto> em, ''password'' \<mapsto> pw], ip = ''203.0.113.7'',
      user = None, token = None\<rparr>"

text \<open>
  A table with one reservation, a stand-in for the document store that finds no
  document, and an admin's request to set the status of the reservation with a given id.
\<close>

definition a_row :: jsobj where
  "a_row =
     [(''id'', JNum 1), (''user_id'', JStr ''u1''), (''name'', JStr ''John Doe''),
      (''email'', JStr ''john@example.com''), (''phone'', JStr ''+1234567890''),
      (''date'', JStr ''2024-12-24''), (''time'', JStr ''20:00''), (''guests'', JStr ''4''),
      (''special_requests'', JNull), (''club'', JStr ''Skyline''),
      (''club_location'', JNull), (''status'', JStr ''confirmed''),
      (''created_at'', JDate 1000), (''updated_at'', JDate 1000)]"

definition a_table :: pg_table where
  "a_table = \<lparr>rows = [a_row], serial = 2\<rparr>"

definition a_mongo :: mongo where
  "a_mongo = \<lparr>mongo_save = (\<lambda>d. d), mongo_findByIdAndUpdate = (\<lambda>i u. JNull),
              mongo_findByIdAndDelete = (\<lambda>i. JNull)\<rparr>"

definition status_request :: "string \<Rightarrow> string \<Rightarrow> request" where
  "status_request i st =
     \<lparr>authorization = None, cookies = (\<lambda>k. None), params = [''id'' \<mapsto> i],
      body = [''status'' \<mapsto> st], ip = ''203.0.113.7'', user = Some root, token = None\<rparr>"

text \<open>A request to refresh, with the refresh token in its cookie.\<close>

definition refresh_request :: "string \<Rightarrow> request" where
  "refresh_request tok =
     \<lparr>authorization = None, cookies = [''refreshToken'' \<mapsto> tok], params = (\<lambda>k. None),
      body = (\<lambda>k. None), ip = ''203.0.113.7'', user = None, token = None\<rparr>"

text \<open>Five login requests for one email, a second apart.\<close>

definition five_attempts :: "(int \<times> request) list" where
  "five_attempts =
     [(1000, login_request ''john@example.com'' ''wrong1''),
      (2000, login_request ''john@example.com'' ''wrong2''),
      (3000, login_request ''john@example.com'' ''wrong3''),
      (4000, login_request ''john@example.com'' ''wrong4''),
      (5000, login_request ''john@example.com'' ''wrong5'')]"

section \<open>Properties of the password strength check\<close>

lemma lookahead_imp_list_ex: "lookahead cls s \<Longrightarrow> list_ex cls s"
  by (induction s) auto

lemma in_class_not_line_terminator: "in_class c \<Longrightarrow> \<not> is_line_terminator c"
  by (auto simp: in_class_def is_line_terminator_def is_upper_def is_lower_def
      is_digit_def is_special_def)

lemma lookahead_in_class:
  "list_all in_class s \<Longrightarrow> lookahead cls s = list_ex cls s"
  by (induction s) (auto dest: in_class_not_line_terminator)

lemma passwordRegex_test_iff:
  "passwordRegex_test pw = (meetsPolicy_spec pw \<and> list_all in_class pw)"
  by (auto simp: passwordRegex_test_def meetsPolicy_spec_def lookahead_in_class)

text \<open>
  C3 (as amended).  The strength check accepts a password if and only if its length is at
  least 8, it contains a lowercase letter, an uppercase letter, a digit and a special
  character, and every one of its characters is a letter, a digit or one of the special
  characters; when name, email and password are present, registration answers
  400 WEAK_PASSWORD exactly for the passwords the check does not accept.
\<close>

theorem C3_password_policy:
  "passwordRegex_test pw =
     (8 \<le> length pw \<and> list_ex is_lower pw \<and> list_ex is_upper pw \<and>
      list_ex is_digit pw \<and> list_ex is_special pw \<and>
      list_all in_class pw) \<and>
   (if truthy nm \<and> truthy em \<and> pw \<noteq> [] then
      (register_validation nm em (Some pw) confirm =
         Some (json_error 400
           ''Password must be 8+ chars with uppercase, lowercase, number, special char''
           ''WEAK_PASSWORD''))
      = (\<not> passwordRegex_test pw)
    else True)"
proof -
  have a: "passwordRegex_test pw =
     (8 \<le> length pw \<and> list_ex is_lower pw \<and> list_ex is_upper pw \<and>
      list_ex is_digit pw \<and> list_ex is_special pw \<and>
      list_all in_class pw)"
    by (auto simp: passwordRegex_test_iff meetsPolicy_spec_def)
  have b: "truthy nm \<Longrightarrow> truthy em \<Longrightarrow> pw \<noteq> [] \<Longrightarrow>
      (register_validation nm em (Some pw) confirm =
         Some (json_error 400
           ''Password must be 8+ chars with uppercase, lowercase, number, special char''
           ''WEAK_PASSWORD''))
      = (\<not> passwordRegex_test pw)"
    by (simp add: register_validation_def truthy_def json_error_def)
  show ?thesis using a b by simp
qed

theorem C3_password_policy_witness:
  "passwordRegex_test ''SecurePass123!'' \<and>
   register_validation (Some ''John Doe'') (Some ''john@example.com'')
     (Some ''NoSpec123'') (Some ''NoSpec123'') =
     Some (json_error 400
       ''Password must be 8+ chars with uppercase, lowercase, number, special char''
       ''WEAK_PASSWORD'')"
proof -
  have "passwordRegex_test ''SecurePass123!''"
    using C3_password_policy [of "''SecurePass123!''" None None None]
    by (simp add: is_lower_def is_upper_def is_digit_def is_special_def in_class_def truthy_def)
  moreover have "\<not> passwordRegex_test ''NoSpec123''"
    by (simp add: passwordRegex_test_def is_special_def is_line_terminator_def)
  then have "register_validation (Some ''John Doe'') (Some ''john@example.com'')
     (Some ''NoSpec123'') (Some ''NoSpec123'') =
     Some (json_error 400
       ''Password must be 8+ chars with uppercase, lowercase, number, special char''
       ''WEAK_PASSWORD'')"
    using C3_password_policy [of "''NoSpec123''" "Some ''John Doe''"
        "Some ''john@example.com''" "Some ''NoSpec123''"]
    by (simp add: truthy_def)
  ultimately show ?thesis by simp
qed

text \<open>
  C3 as stated fails: \<open>Passw0rd!#\<close> has ten characters, among them a lowercase letter, an
  uppercase letter, a digit and the special character \<open>!\<close>, yet the check rejects it,
  because \<open>#\<close> is outside the class the expression consumes.
\<close>

theorem C3_counterexample:
  "meetsPolicy_spec ''Passw0rd!#'' \<and> \<not> passwordRegex_test ''Passw0rd!#'' \<and>
   register_validation (Some ''John Doe'') (Some ''john@example.com'')
     (Some ''Passw0rd!#'') (Some ''Passw0rd!#'') =
     Some (json_error 400
       ''Password must be 8+ chars with uppercase, lowercase, number, special char''
       ''WEAK_PASSWORD'')"
  by (simp add: meetsPolicy_spec_def passwordRegex_test_def register_validation_def
      truthy_def is_lower_def is_upper_def is_digit_def is_special_def in_class_def)

section \<open>Properties of the authorization middlewares\<close>

lemma protect_Next:
  assumes "protect e L users now req0 = Next req"
  shows "\<exists>u. user req = Some u \<and> params req = params req0"
  using assms
  by (auto simp: protect_def split: if_splits sum.splits jwt_error.splits option.splits)

lemma protect_demo_mia:
  "protect demo_env demo_jwt demo_users now (bearer_request ''u2.15m.access-secret'' i) =
     Next ((bearer_request ''u2.15m.access-secret'' i)
             \<lparr>user := Some (mia\<lparr>password := []\<rparr>), token := Some ''u2.15m.access-secret''\<rparr>)"
  by (simp add: protect_def extract_token_def truthy_def bearer_request_def index_def
      demo_env_def demo_jwt_def jwt_verify_def decoded_id_def findById_def demo_users_def
      john_def mia_def root_def)

lemma protect_demo_root:
  "protect demo_env demo_jwt demo_users now (bearer_request ''u9.15m.access-secret'' i) =
     Next ((bearer_request ''u9.15m.access-secret'' i)
             \<lparr>user := Some (root\<lparr>password := []\<rparr>), token := Some ''u9.15m.access-secret''\<rparr>)"
  by (simp add: protect_def extract_token_def truthy_def bearer_request_def index_def
      demo_env_def demo_jwt_def jwt_verify_def decoded_id_def findById_def demo_users_def
      john_def mia_def root_def)

text \<open>
  C1.  Let \<open>protect\<close> have authenticated a request to \<open>PUT /api/users/:id\<close>, attaching
  the caller \<open>u\<close>.  If \<open>u\<close> is not an admin and the addressed id (\<open>req.params.id ||
  req.params.userId\<close>) is not \<open>u\<close>'s own id, the ownership check answers 403 NOT_OWNER and
  the route ends there, whatever the handler is: the handler does not run.  If \<open>u\<close> is an
  admin, the check calls \<open>next()\<close> whatever the addressed id is, and the route reaches the
  handler.
\<close>

theorem C1_ownership:
  assumes "protect e L users now req0 = Next req" and "user req = Some u"
  shows "(role u \<noteq> ''admin'' \<and>
          or_else (params req0 ''id'') (params req0 ''userId'') \<noteq> Some (uid u) \<longrightarrow>
            checkResourceOwnership req =
              Done (json_error 403 ''Cannot access this resource'' ''NOT_OWNER'') \<and>
            put_users_id e L users now handler req0 =
              Short (json_error 403 ''Cannot access this resource'' ''NOT_OWNER''))
       \<and> (role u = ''admin'' \<longrightarrow>
            checkResourceOwnership req = Next req \<and>
            put_users_id e L users now handler req0 = Handled (handler req))"
proof -
  from protect_Next [OF assms(1)] have p: "params req = params req0" by blast
  show ?thesis
    using assms p
    by (simp add: checkResourceOwnership_def put_users_id_def auditLog_def Let_def)
qed

text \<open>
  The manager Mia addressing John's id is stopped with 403 NOT_OWNER; the admin
  addressing the same id reaches the handler.
\<close>

theorem C1_ownership_witness:
  "put_users_id demo_env demo_jwt demo_users 0
     (\<lambda>r. \<lparr>status = 200, json = [], set_cookies = []\<rparr>)
     (bearer_request ''u2.15m.access-secret'' ''u1'') =
     Short (json_error 403 ''Cannot access this resource'' ''NOT_OWNER'') \<and>
   put_users_id demo_env demo_jwt demo_users 0
     (\<lambda>r. \<lparr>status = 200, json = [], set_cookies = []\<rparr>)
     (bearer_request ''u9.15m.access-secret'' ''u1'') =
     Handled \<lparr>status = 200, json = [], set_cookies = []\<rparr>"
proof -
  have a: "put_users_id demo_env demo_jwt demo_users 0
     (\<lambda>r. \<lparr>status = 200, json = [], set_cookies = []\<rparr>)
     (bearer_request ''u2.15m.access-secret'' ''u1'') =
     Short (json_error 403 ''Cannot access this resource'' ''NOT_OWNER'')"
    using C1_ownership [OF protect_demo_mia, where u = "mia\<lparr>password := []\<rparr>"]
    by (simp add: mia_def bearer_request_def or_else_def truthy_def)
  have b: "put_users_id demo_env demo_jwt demo_users 0
     (\<lambda>r. \<lparr>status = 200, json = [], set_cookies = []\<rparr>)
     (bearer_request ''u9.15m.access-secret'' ''u1'') =
     Handled \<lparr>status = 200, json = [], set_cookies = []\<rparr>"
    using C1_ownership [OF protect_demo_root, where u = "root\<lparr>password := []\<rparr>"]
    by (simp add: root_def)
  show ?thesis using a b by simp
qed

lemma list_all_member: "list_all (\<lambda>p. p \<in> set ys) xs = (set xs \<subseteq> set ys)"
  by (induction xs) auto

text \<open>
  C6.  For an authenticated request whose caller has one of the roles the schema admits,
  the permission check looks only at the caller's role: it calls \<open>next()\<close> if and only
  if every required permission is in the list the fixed table gives for that role, and
  otherwise ends the chain with 403 INSUFFICIENT_PERMISSIONS.  The table is the one of
  the specification.
\<close>

theorem C6_permission_check:
  assumes "user req = Some u" and "role u \<in> set role_enum"
  shows "checkPermission required req =
           (if set required \<subseteq> set (userPermissions (role u)) then Next req
            else Done (insufficient_permissions required (userPermissions (role u))))
       \<and> userPermissions ''admin'' =
            [''view_users'', ''create_users'', ''update_users'', ''delete_users'',
             ''view_reservations'', ''manage_reservations'',
             ''view_settings'', ''update_settings'', ''view_logs'', ''manage_admins'']
       \<and> userPermissions ''manager'' =
            [''view_users'', ''view_reservations'', ''manage_reservations'', ''view_settings'']
       \<and> userPermissions ''user'' =
            [''view_profile'', ''update_profile'', ''create_reservations'',
             ''view_own_reservations'']"
proof -
  have "checkPermission required req =
           (if set required \<subseteq> set (userPermissions (role u)) then Next req
            else Done (insufficient_permissions required (userPermissions (role u))))"
    using assms(1) by (simp add: checkPermission_def list_all_member)
  then show ?thesis
    by (simp add: userPermissions_def rolePermissions_def)
qed

theorem C6_permission_check_witness:
  "checkPermission [''view_users'', ''view_settings'']
     ((bearer_request ''t'' ''x'')\<lparr>user := Some mia\<rparr>) =
     Next ((bearer_request ''t'' ''x'')\<lparr>user := Some mia\<rparr>) \<and>
   checkPermission [''view_users'', ''delete_users'']
     ((bearer_request ''t'' ''x'')\<lparr>user := Some mia\<rparr>) =
     Done (insufficient_permissions [''view_users'', ''delete_users'']
       [''view_users'', ''view_reservations'', ''manage_reservations'', ''view_settings''])"
  using C6_permission_check [of "(bearer_request ''t'' ''x'')\<lparr>user := Some mia\<rparr>" mia
      "[''view_users'', ''view_settings'']"]
    C6_permission_check [of "(bearer_request ''t'' ''x'')\<lparr>user := Some mia\<rparr>" mia
      "[''view_users'', ''delete_users'']"]
  by (simp add: mia_def role_enum_def)

section \<open>Properties of the login throttle\<close>

lemma Math_min_Min: "xs \<noteq> [] \<Longrightarrow> Math_min xs = Min (set xs)"
proof (cases xs)
  case Nil
  assume "xs \<noteq> []"
  with Nil show ?thesis by simp
next
  case (Cons x ys)
  have "Min (set (x # ys)) = fold min ys x" by (rule Min.set_eq_fold)
  with Cons show ?thesis by (simp add: Math_min_def)
qed

lemma filter_length_eq: "length (filter P xs) = length xs \<Longrightarrow> filter P xs = xs"
proof (induction xs)
  case Nil
  then show ?case by simp
next
  case (Cons x xs)
  have le: "length (filter P xs) \<le> length xs" by (rule length_filter_le)
  from Cons.prems le have px: "P x" by (cases "P x") auto
  with Cons show ?case by simp
qed

lemma Math_ceil_div_bounds:
  "1000 * (Math_ceil_div x 1000 - 1) < x \<and> x \<le> 1000 * Math_ceil_div x 1000"
proof -
  define q where "q = (- x) div 1000"
  define r where "r = (- x) mod 1000"
  have e: "- x = 1000 * q + r" by (simp add: q_def r_def)
  have b: "0 \<le> r" "r < 1000" by (simp_all add: r_def)
  have "1000 * (- q - 1) < x" using e b by (simp add: algebra_simps)
  moreover have "x \<le> 1000 * (- q)" using e b by (simp add: algebra_simps)
  ultimately show ?thesis by (simp add: Math_ceil_div_def q_def)
qed

lemma loginLimiter_reject:
  assumes "5 \<le> length (recent a now (identifier_of req))"
  shows "loginLimiter a now req =
           (Done (rate_limited (Min (set (recent a now (identifier_of req))) + 900000)
                    (Math_ceil_div (Min (set (recent a now (identifier_of req))) + 900000 - now) 1000)),
            a)"
proof -
  from assms have ne: "recent a now (identifier_of req) \<noteq> []" by auto
  show ?thesis
    using assms Math_min_Min [OF ne]
    by (simp add: loginLimiter_def createLoginLimiter_def recent_def recorded_def
        identifier_of_def Let_def)
qed

lemma loginLimiter_allow:
  assumes "length (recent a now (identifier_of req)) < 5"
  shows "loginLimiter a now req =
           (Next req, a(identifier_of req \<mapsto> recent a now (identifier_of req) @ [now]))"
  using assms
  by (simp add: loginLimiter_def createLoginLimiter_def recent_def recorded_def
      identifier_of_def Let_def)

lemma length_recent_le: "length (recent a now k) \<le> length (recorded a k)"
  by (simp add: recent_def)

lemma reachable_loginLimiter:
  assumes "reachable a"
  shows "reachable (snd (loginLimiter a now req))"
proof (cases "5 \<le> length (recent a now (identifier_of req))")
  case True
  then show ?thesis using assms by (simp add: loginLimiter_reject)
next
  case False
  then have "length (recent a now (identifier_of req)) < 5" by simp
  then show ?thesis
    using assms by (auto simp: loginLimiter_allow reachable_def recorded_def)
qed

lemma reachable_limiter_run:
  "reachable a \<Longrightarrow> reachable (snd (limiter_run a evs))"
proof (induction evs arbitrary: a)
  case Nil
  then show ?case by simp
next
  case (Cons ev evs)
  obtain now req where ev: "ev = (now, req)" by (cases ev)
  obtain out a' where s: "loginLimiter a now req = (out, a')" by (cases "loginLimiter a now req")
  from Cons.prems have "reachable a'"
    using reachable_loginLimiter [of a now req] s by simp
  from Cons.IH [OF this] show ?case
    using ev s by (auto split: prod.splits)
qed

lemma reachable_empty: "reachable (\<lambda>k. None)"
  by (simp add: reachable_def recorded_def)

lemma oldest_left_recent:
  assumes "reachable a" and "recorded a k \<noteq> []"
    and "Min (set (recorded a k)) + 900000 \<le> now"
  shows "length (recent a now k) < 5"
proof -
  let ?m = "Min (set (recorded a k))"
  have m: "?m \<in> set (recorded a k)" using assms(2) by (simp add: Min_in)
  have "\<not> (now - ?m < 15 * 60 * 1000)" using assms(3) by simp
  have "length (recent a now k) < length (recorded a k)"
    unfolding recent_def using m \<open>\<not> (now - ?m < 15 * 60 * 1000)\<close>
    by (rule length_filter_less)
  moreover from assms(1) have "length (recorded a k) \<le> 5" by (simp add: reachable_def)
  ultimately show ?thesis by linarith
qed


text \<open>
  C5.  Let \<open>a\<close> be the limiter's map after any sequence of login requests, and let a
  request arrive at \<open>now\<close> under an identifier (the submitted email, or the caller address
  when the email is absent or empty).  If 5 recorded attempts of that identifier lie
  inside the trailing 15-minute window, these are all its recorded attempts and the
  request is answered 429 RATE_LIMITED, the map unchanged, with \<open>retryAfter\<close> the number
  of milliseconds until the oldest recorded attempt leaves the window, in seconds,
  rounded up.  With fewer than 5 the request passes and is recorded.  Once the oldest
  recorded attempt has left the window, the request passes.
\<close>

theorem C5_login_throttle:
  assumes "a = snd (limiter_run (\<lambda>k. None) evs)"
  shows "(5 \<le> length (recent a now (identifier_of req)) \<longrightarrow>
            recent a now (identifier_of req) = recorded a (identifier_of req) \<and>
            loginLimiter a now req =
              (Done (rate_limited (Min (set (recorded a (identifier_of req))) + 900000)
                       (Math_ceil_div
                          (Min (set (recorded a (identifier_of req))) + 900000 - now) 1000)),
               a) \<and>
            1000 * (Math_ceil_div
                      (Min (set (recorded a (identifier_of req))) + 900000 - now) 1000 - 1)
              < Min (set (recorded a (identifier_of req))) + 900000 - now \<and>
            Min (set (recorded a (identifier_of req))) + 900000 - now
              \<le> 1000 * Math_ceil_div
                         (Min (set (recorded a (identifier_of req))) + 900000 - now) 1000)
       \<and> (length (recent a now (identifier_of req)) < 5 \<longrightarrow>
            loginLimiter a now req =
              (Next req,
               a(identifier_of req \<mapsto> recent a now (identifier_of req) @ [now])))
       \<and> (recorded a (identifier_of req) \<noteq> [] \<and>
          Min (set (recorded a (identifier_of req))) + 900000 \<le> now \<longrightarrow>
            fst (loginLimiter a now req) = Next req)"
proof -
  let ?k = "identifier_of req"
  have r: "reachable a"
    unfolding assms by (rule reachable_limiter_run [OF reachable_empty])
  have full: "recent a now ?k = recorded a ?k" if "5 \<le> length (recent a now ?k)"
  proof -
    from r have "length (recorded a ?k) \<le> 5" by (simp add: reachable_def)
    with that have "length (recent a now ?k) = length (recorded a ?k)"
      using length_recent_le [of a now ?k] by linarith
    then show ?thesis unfolding recent_def by (rule filter_length_eq)
  qed
  have c1: "loginLimiter a now req =
              (Done (rate_limited (Min (set (recorded a ?k)) + 900000)
                       (Math_ceil_div (Min (set (recorded a ?k)) + 900000 - now) 1000)), a)"
    if "5 \<le> length (recent a now ?k)"
    using loginLimiter_reject [OF that] full [OF that] by simp
  have c3: "fst (loginLimiter a now req) = Next req"
    if "recorded a ?k \<noteq> []" and "Min (set (recorded a ?k)) + 900000 \<le> now"
    using loginLimiter_allow [OF oldest_left_recent [OF r that]] by simp
  show ?thesis
    using full c1 c3 loginLimiter_allow [of a now req]
      Math_ceil_div_bounds [of "Min (set (recorded a ?k)) + 900000 - now"]
    by blast
qed


lemma identifier_of_login_request: "identifier_of (login_request ''john@example.com'' pw) = ''john@example.com''"
  by (simp add: identifier_of_def login_request_def truthy_def)

lemma recorded_five_attempts:
  "recorded (snd (limiter_run (\<lambda>k. None) five_attempts)) ''john@example.com'' =
     [1000, 2000, 3000, 4000, 5000]"
  by (simp add: five_attempts_def loginLimiter_def createLoginLimiter_def login_request_def
      truthy_def recorded_def Let_def)

text \<open>
  Five attempts at seconds 1 to 5: a sixth at second 6 is told to retry after 895
  seconds, and at second 901 an attempt passes.
\<close>

theorem C5_login_throttle_witness:
  "loginLimiter (snd (limiter_run (\<lambda>k. None) five_attempts)) 6000
     (login_request ''john@example.com'' ''SecurePass123!'') =
     (Done (rate_limited 901000 895), snd (limiter_run (\<lambda>k. None) five_attempts)) \<and>
   fst (loginLimiter (snd (limiter_run (\<lambda>k. None) five_attempts)) 901000
     (login_request ''john@example.com'' ''SecurePass123!'')) =
     Next (login_request ''john@example.com'' ''SecurePass123!'')"
  using C5_login_throttle [OF refl, of five_attempts 6000
      "login_request ''john@example.com'' ''SecurePass123!''"]
    C5_login_throttle [OF refl, of five_attempts 901000
      "login_request ''john@example.com'' ''SecurePass123!''"]
  by (simp add: identifier_of_login_request recorded_five_attempts recent_def
      Math_ceil_div_def)

lemma all_recent:
  assumes "t < Min (set (recorded a k)) + 900000"
  shows "recent a t k = recorded a k"
proof -
  have "t - s < 15 * 60 * 1000" if "s \<in> set (recorded a k)" for s
  proof -
    from that have "Min (set (recorded a k)) \<le> s" by simp
    with assms show ?thesis by simp
  qed
  then show ?thesis by (simp add: recent_def)
qed

lemma rejected_rate_limited: "rejected (Done (rate_limited t r))"
  by (simp add: rejected_def rate_limited_def)

lemma burst_rejected:
  assumes "5 \<le> length (recorded a k)"
    and "\<forall>(t, q) \<in> set burst. identifier_of q = k \<and> t < Min (set (recorded a k)) + 900000"
  shows "snd (limiter_run a burst) = a \<and> list_all rejected (fst (limiter_run a burst))"
  using assms(2)
proof (induction burst)
  case Nil
  then show ?case by simp
next
  case (Cons ev burst)
  obtain t q where ev: "ev = (t, q)" by (cases ev)
  from Cons.prems ev have k: "identifier_of q = k"
    and t: "t < Min (set (recorded a k)) + 900000" by simp_all
  from all_recent [OF t] assms(1) have "5 \<le> length (recent a t (identifier_of q))"
    by (simp add: k)
  from loginLimiter_reject [OF this] obtain x y where
    l: "loginLimiter a t q = (Done (rate_limited x y), a)" by blast
  from Cons.prems have "\<forall>(t, q) \<in> set burst.
      identifier_of q = k \<and> t < Min (set (recorded a k)) + 900000" by simp
  from Cons.IH [OF this] show ?case
    using ev l by (auto simp: rejected_rate_limited split: prod.splits)
qed

lemma recorded_allowed:
  assumes "t \<in> set (recorded (snd (limiter_run a evs)) k)"
  shows "t \<in> set (recorded a k) \<or>
         (\<exists>q. ((t, q), Next q) \<in> set (zip evs (fst (limiter_run a evs))) \<and>
              identifier_of q = k)"
  using assms
proof (induction evs arbitrary: a)
  case Nil
  then show ?case by simp
next
  case (Cons ev evs)
  obtain now req where ev: "ev = (now, req)" by (cases ev)
  obtain out a' where s: "loginLimiter a now req = (out, a')"
    by (cases "loginLimiter a now req")
  obtain outs a'' where s2: "limiter_run a' evs = (outs, a'')"
    by (cases "limiter_run a' evs")
  from Cons.prems ev s s2 have "t \<in> set (recorded (snd (limiter_run a' evs)) k)" by simp
  from Cons.IH [OF this] have
    d: "t \<in> set (recorded a' k) \<or>
        (\<exists>q. ((t, q), Next q) \<in> set (zip evs outs) \<and> identifier_of q = k)"
    using s2 by simp
  show ?case
  proof (cases "5 \<le> length (recent a now (identifier_of req))")
    case True
    from loginLimiter_reject [OF True] s have "a' = a" by simp
    with d show ?thesis using ev s s2 by auto
  next
    case False
    then have lt: "length (recent a now (identifier_of req)) < 5" by simp
    from loginLimiter_allow [OF lt] s have
      out: "out = Next req" and
      a': "a' = a(identifier_of req \<mapsto> recent a now (identifier_of req) @ [now])"
      by simp_all
    have "t \<in> set (recorded a' k) \<Longrightarrow>
          t \<in> set (recorded a k) \<or> (t = now \<and> identifier_of req = k)"
      by (auto simp: a' recorded_def recent_def split: if_splits)
    with d show ?thesis using ev s s2 out by auto
  qed
qed

text \<open>
  C10.  Let the limiter, in a state \<open>a\<close> it can reach, reject a request with 429.  The
  map is unchanged: the rejected attempt is not recorded, and every timestamp recorded
  for the identifier is that of an attempt the limiter let pass.  Any further attempts
  under the identifier that arrive before the oldest recorded attempt leaves the
  15-minute window are rejected too and leave the map as it was, and an attempt at or
  after that moment passes: rejected attempts do not move the unlock time.
\<close>

theorem C10_rejected_not_recorded:
  assumes "a = snd (limiter_run (\<lambda>k. None) evs)"
    and "loginLimiter a now req = (Done r, a')"
    and "\<forall>(t, q) \<in> set burst. identifier_of q = identifier_of req \<and>
           t < Min (set (recorded a (identifier_of req))) + 900000"
    and "Min (set (recorded a (identifier_of req))) + 900000 \<le> later"
  shows "a' = a \<and>
         (\<forall>t \<in> set (recorded a (identifier_of req)).
            \<exists>q. ((t, q), Next q) \<in> set (zip evs (fst (limiter_run (\<lambda>k. None) evs))) \<and>
                identifier_of q = identifier_of req) \<and>
         snd (limiter_run a' burst) = a \<and>
         list_all rejected (fst (limiter_run a' burst)) \<and>
         fst (loginLimiter (snd (limiter_run a' burst)) later req) = Next req"
proof -
  let ?k = "identifier_of req"
  have r: "reachable a"
    unfolding assms(1) by (rule reachable_limiter_run [OF reachable_empty])
  have five: "5 \<le> length (recent a now ?k)"
  proof (rule ccontr)
    assume "\<not> 5 \<le> length (recent a now ?k)"
    then have "length (recent a now ?k) < 5" by simp
    from loginLimiter_allow [OF this] assms(2) show False by simp
  qed
  from loginLimiter_reject [OF five] assms(2) have same: "a' = a" by simp
  from five length_recent_le [of a now ?k] have len: "5 \<le> length (recorded a ?k)"
    by linarith
  then have ne: "recorded a ?k \<noteq> []" by auto
  have only_allowed: "\<forall>t \<in> set (recorded a ?k).
      \<exists>q. ((t, q), Next q) \<in> set (zip evs (fst (limiter_run (\<lambda>k. None) evs))) \<and>
          identifier_of q = ?k"
  proof
    fix t assume "t \<in> set (recorded a ?k)"
    then have "t \<in> set (recorded (snd (limiter_run (\<lambda>k. None) evs)) ?k)"
      by (simp add: assms(1))
    from recorded_allowed [OF this] show
      "\<exists>q. ((t, q), Next q) \<in> set (zip evs (fst (limiter_run (\<lambda>k. None) evs))) \<and>
          identifier_of q = ?k"
      by (simp add: recorded_def)
  qed
  from burst_rejected [OF len assms(3)] have
    b: "snd (limiter_run a burst) = a \<and> list_all rejected (fst (limiter_run a burst))" .
  have "fst (loginLimiter a later req) = Next req"
    using loginLimiter_allow [OF oldest_left_recent [OF r ne assms(4)]] by simp
  with same only_allowed b show ?thesis by simp
qed


lemma demo_sixth_rejected:
  "loginLimiter (snd (limiter_run (\<lambda>k. None) five_attempts)) 6000
     (login_request ''john@example.com'' pw) =
     (Done (rate_limited 901000 895), snd (limiter_run (\<lambda>k. None) five_attempts))"
proof -
  have "5 \<le> length (recent (snd (limiter_run (\<lambda>k. None) five_attempts)) 6000
      (identifier_of (login_request ''john@example.com'' pw)))"
    by (simp add: identifier_of_login_request recorded_five_attempts recent_def)
  from loginLimiter_reject [OF this] show ?thesis
    by (simp add: identifier_of_login_request recorded_five_attempts recent_def
        Math_ceil_div_def)
qed

theorem C10_rejected_not_recorded_witness:
  "snd (limiter_run (snd (limiter_run (\<lambda>k. None) five_attempts))
         [(7000, login_request ''john@example.com'' ''guess6''),
          (8000, login_request ''john@example.com'' ''guess7'')]) =
     snd (limiter_run (\<lambda>k. None) five_attempts) \<and>
   fst (loginLimiter
         (snd (limiter_run (snd (limiter_run (\<lambda>k. None) five_attempts))
            [(7000, login_request ''john@example.com'' ''guess6''),
             (8000, login_request ''john@example.com'' ''guess7'')]))
         901000 (login_request ''john@example.com'' ''SecurePass123!'')) =
     Next (login_request ''john@example.com'' ''SecurePass123!'')"
proof -
  let ?a = "snd (limiter_run (\<lambda>k. None) five_attempts)"
  let ?req = "login_request ''john@example.com'' ''SecurePass123!''"
  have burst: "\<forall>(t, q) \<in> set [(7000, login_request ''john@example.com'' ''guess6''),
                              (8000, login_request ''john@example.com'' ''guess7'')].
      identifier_of q = identifier_of ?req \<and>
      t < Min (set (recorded ?a (identifier_of ?req))) + 900000"
    by (simp add: identifier_of_login_request recorded_five_attempts)
  have later: "Min (set (recorded ?a (identifier_of ?req))) + 900000 \<le> 901000"
    by (simp add: identifier_of_login_request recorded_five_attempts)
  from C10_rejected_not_recorded [OF refl demo_sixth_rejected burst later]
  show ?thesis by blast
qed

section \<open>Properties of the account lockout and of login\<close>

lemma findOne_updateOne:
  assumes "findOne users e = Some u" and "\<And>v. email (f v) = email v"
  shows "findOne (updateOne users u f) e = Some (f u)"
  using assms(1)
proof (induction users)
  case Nil
  then show ?case by (simp add: findOne_def)
next
  case (Cons v vs)
  show ?case
  proof (cases "email v = e")
    case True
    with Cons.prems have "v = u" by (simp add: findOne_def)
    with True show ?thesis by (simp add: findOne_def updateOne_def assms(2))
  next
    case False
    with Cons.prems have "findOne vs e = Some u" by (simp add: findOne_def)
    from Cons.IH [OF this] False show ?thesis
      by (simp add: findOne_def updateOne_def assms(2))
  qed
qed

lemma email_incLoginAttempts: "email (incLoginAttempts now v) = email v"
  by (simp add: incLoginAttempts_def Let_def)

lemma email_resetLoginAttempts: "email (resetLoginAttempts now v) = email v"
  by (simp add: resetLoginAttempts_def)

lemma login_handler_locked:
  assumes "truthy (body req ''email'')" and "truthy (body req ''password'')"
    and "findOne users (toLowerCase (the (body req ''email''))) = Some u"
    and "isLocked u now"
  shows "login_handler e L compare users now req = (account_locked (lockUntil u), users)"
  using assms by (simp add: login_handler_def)

lemma login_handler_failed:
  assumes "truthy (body req ''email'')" and "truthy (body req ''password'')"
    and "findOne users (toLowerCase (the (body req ''email''))) = Some u"
    and "\<not> isLocked u now"
    and "\<not> compare (the (body req ''password'')) (password u)"
  shows "login_handler e L compare users now req =
           (json_error 401 ''Invalid credentials'' ''INVALID_CREDENTIALS'',
            updateOne users u (incLoginAttempts now))"
  using assms by (simp add: login_handler_def)

lemma login_handler_verified:
  assumes "truthy (body req ''email'')" and "truthy (body req ''password'')"
    and "findOne users (toLowerCase (the (body req ''email''))) = Some u"
    and "\<not> isLocked u now"
    and "compare (the (body req ''password'')) (password u)"
  shows "snd (login_handler e L compare users now req) =
           updateOne users u (resetLoginAttempts now)"
  using assms by (simp add: login_handler_def Let_def split: sum.splits)

text \<open>
  C7.  When a login request reaches password verification (the account is found and
  not locked) and the verification succeeds, the stored account has its login-attempt
  counter at 0 and its lock-until unset afterwards (and its last login set to the time
  of the request), whatever the counter was before and whether or not the tokens can be
  signed.
\<close>

theorem C7_reset_on_success:
  assumes "truthy (body req ''email'')" and "truthy (body req ''password'')"
    and "findOne users (toLowerCase (the (body req ''email''))) = Some u"
    and "\<not> isLocked u now"
    and "compare (the (body req ''password'')) (password u)"
  shows "findOne (snd (login_handler e L compare users now req))
           (toLowerCase (the (body req ''email''))) =
           Some (u\<lparr>loginAttempts := 0, lastLogin := Some now, lockUntil := None\<rparr>)"
proof -
  have "findOne (updateOne users u (resetLoginAttempts now))
           (toLowerCase (the (body req ''email''))) = Some (resetLoginAttempts now u)"
    using assms(3) by (rule findOne_updateOne) (rule email_resetLoginAttempts)
  then show ?thesis
    using login_handler_verified [where compare = compare, OF assms, of e L]
    by (simp add: resetLoginAttempts_def)
qed

text \<open>
  C8.  For an account whose lock-until is set and in the past, \<open>incLoginAttempts\<close> stores
  the counter 1 and unsets lock-until; a login with a wrong password for such an account
  is answered 401 INVALID_CREDENTIALS and leaves exactly that in the collection.
\<close>

theorem C8_expired_lock_restart:
  assumes "lockUntil u = Some t" and "t < now"
  shows "incLoginAttempts now u = u\<lparr>loginAttempts := 1, lockUntil := None\<rparr> \<and>
         (truthy (body req ''email'') \<and> truthy (body req ''password'') \<and>
          findOne users (toLowerCase (the (body req ''email''))) = Some u \<and>
          \<not> compare (the (body req ''password'')) (password u) \<longrightarrow>
            fst (login_handler e L compare users now req) =
              json_error 401 ''Invalid credentials'' ''INVALID_CREDENTIALS'' \<and>
            findOne (snd (login_handler e L compare users now req))
              (toLowerCase (the (body req ''email''))) =
              Some (u\<lparr>loginAttempts := 1, lockUntil := None\<rparr>))"
proof -
  have inc: "incLoginAttempts now u = u\<lparr>loginAttempts := 1, lockUntil := None\<rparr>"
    using assms by (simp add: incLoginAttempts_def)
  have unlocked: "\<not> isLocked u now" using assms by (simp add: isLocked_def)
  have "fst (login_handler e L compare users now req) =
              json_error 401 ''Invalid credentials'' ''INVALID_CREDENTIALS'' \<and>
            findOne (snd (login_handler e L compare users now req))
              (toLowerCase (the (body req ''email''))) =
              Some (u\<lparr>loginAttempts := 1, lockUntil := None\<rparr>)"
    if a: "truthy (body req ''email'')" and b: "truthy (body req ''password'')"
      and c: "findOne users (toLowerCase (the (body req ''email''))) = Some u"
      and d: "\<not> compare (the (body req ''password'')) (password u)"
  proof -
    have "findOne (updateOne users u (incLoginAttempts now))
           (toLowerCase (the (body req ''email''))) = Some (incLoginAttempts now u)"
      using c by (rule findOne_updateOne) (rule email_incLoginAttempts)
    then show ?thesis
      using login_handler_failed [where compare = compare, OF a b c unlocked d, of e L] by (simp add: inc)
  qed
  with inc show ?thesis by blast
qed


lemma incLoginAttempts_unlocked:
  assumes "lockUntil v = None"
  shows "incLoginAttempts t v =
           (if 4 \<le> loginAttempts v
            then v\<lparr>loginAttempts := loginAttempts v + 1, lockUntil := Some (t + 30 * 60 * 1000)\<rparr>
            else v\<lparr>loginAttempts := loginAttempts v + 1\<rparr>)"
  using assms by (simp add: incLoginAttempts_def isLocked_def Let_def)

lemma incLoginAttempts_start:
  assumes "(loginAttempts u = 0 \<and> lockUntil u = None) \<or> (\<exists>T. lockUntil u = Some T \<and> T < t)"
  shows "incLoginAttempts t u = u\<lparr>loginAttempts := 1, lockUntil := None\<rparr>"
  using assms by (auto simp: incLoginAttempts_def isLocked_def Let_def)

lemma start_not_locked:
  assumes "(loginAttempts u = 0 \<and> lockUntil u = None) \<or> (\<exists>T. lockUntil u = Some T \<and> T < t)"
  shows "\<not> isLocked u t"
  using assms by (auto simp: isLocked_def)

lemma failed_step:
  assumes "findOne users em = Some v" and "\<not> isLocked v t"
    and "addresses em r" and "wrong_password compare v r"
  shows "login_handler e L compare users t r =
           (json_error 401 ''Invalid credentials'' ''INVALID_CREDENTIALS'',
            updateOne users v (incLoginAttempts t)) \<and>
         findOne (updateOne users v (incLoginAttempts t)) em = Some (incLoginAttempts t v)"
proof -
  from assms(3) have a: "truthy (body r ''email'')" and b: "truthy (body r ''password'')"
    and c: "toLowerCase (the (body r ''email'')) = em" by (simp_all add: addresses_def)
  from assms(1) c have f: "findOne users (toLowerCase (the (body r ''email''))) = Some v"
    by simp
  from assms(4) have w: "\<not> compare (the (body r ''password'')) (password v)"
    by (simp add: wrong_password_def)
  have "findOne (updateOne users v (incLoginAttempts t)) em = Some (incLoginAttempts t v)"
    using assms(1) by (rule findOne_updateOne) (rule email_incLoginAttempts)
  with login_handler_failed [where compare = compare, OF a b f assms(2) w, of e L]
  show ?thesis by simp
qed

lemma post_auth_login_locked:
  assumes "findOne users em = Some v" and "isLocked v t" and "addresses em r"
  shows "post_auth_login e L compare (a, users) t r =
           (if 5 \<le> length (recent a t (identifier_of r))
            then (rate_limited (Min (set (recent a t (identifier_of r))) + 900000)
                    (Math_ceil_div
                       (Min (set (recent a t (identifier_of r))) + 900000 - t) 1000),
                  (a, users))
            else (account_locked (lockUntil v),
                  (a(identifier_of r \<mapsto> recent a t (identifier_of r) @ [t]), users)))"
proof -
  from assms(3) have x: "truthy (body r ''email'')" and y: "truthy (body r ''password'')"
    and z: "toLowerCase (the (body r ''email'')) = em" by (simp_all add: addresses_def)
  from assms(1) z have f: "findOne users (toLowerCase (the (body r ''email''))) = Some v"
    by simp
  note h = login_handler_locked [OF x y f assms(2), of e L compare]
  show ?thesis
  proof (cases "5 \<le> length (recent a t (identifier_of r))")
    case True
    from loginLimiter_reject [OF True] True show ?thesis
      by (simp add: post_auth_login_def)
  next
    case False
    then have "length (recent a t (identifier_of r)) < 5" by simp
    from loginLimiter_allow [OF this] False h show ?thesis
      by (simp add: post_auth_login_def auditLog_def)
  qed
qed

text \<open>
  C2 (as amended).  Take an account whose counter is 0 with no lock-until (as after
  registration or a successful login), or whose lock has expired, and five login
  requests for it with wrong passwords, handled at \<open>t1\<close>, ..., \<open>t5\<close>.  Each is answered
  401, and after the fifth the stored account has counter 5 and lock-until
  \<open>t5\<close> + 30 minutes.  A further login request for the account at a time before that
  lock-until is rejected whatever its password: by the request throttle with 429
  RATE_LIMITED when 5 attempts of its identifier lie in the throttle's 15-minute window,
  and otherwise by the handler with 403 ACCOUNT_LOCKED; the account stays as it is.
\<close>

theorem C2_lockout:
  assumes found: "findOne users em = Some u"
    and start: "(loginAttempts u = 0 \<and> lockUntil u = None) \<or>
                (\<exists>T. lockUntil u = Some T \<and> T < t1)"
    and fails: "list_all (\<lambda>r. addresses em r \<and> wrong_password compare u r)
                  [r1, r2, r3, r4, r5]"
    and sixth: "addresses em r6" and window: "t6 < t5 + 30 * 60 * 1000"
    and users5: "users5 = snd (handler_run e L compare users
                   [(t1, r1), (t2, r2), (t3, r3), (t4, r4), (t5, r5)])"
  shows "fst (handler_run e L compare users
                [(t1, r1), (t2, r2), (t3, r3), (t4, r4), (t5, r5)]) =
           replicate 5 (json_error 401 ''Invalid credentials'' ''INVALID_CREDENTIALS'') \<and>
         findOne users5 em =
           Some (u\<lparr>loginAttempts := 5, lockUntil := Some (t5 + 30 * 60 * 1000)\<rparr>) \<and>
         post_auth_login e L compare (a, users5) t6 r6 =
           (if 5 \<le> length (recent a t6 (identifier_of r6))
            then (rate_limited (Min (set (recent a t6 (identifier_of r6))) + 900000)
                    (Math_ceil_div
                       (Min (set (recent a t6 (identifier_of r6))) + 900000 - t6) 1000),
                  (a, users5))
            else (account_locked (Some (t5 + 30 * 60 * 1000)),
                  (a(identifier_of r6 \<mapsto> recent a t6 (identifier_of r6) @ [t6]), users5)))"
proof -
  let ?R = "json_error 401 ''Invalid credentials'' ''INVALID_CREDENTIALS''"
  define u1 where "u1 = u\<lparr>loginAttempts := 1, lockUntil := None\<rparr>"
  define u2 where "u2 = u\<lparr>loginAttempts := 2, lockUntil := None\<rparr>"
  define u3 where "u3 = u\<lparr>loginAttempts := 3, lockUntil := None\<rparr>"
  define u4 where "u4 = u\<lparr>loginAttempts := 4, lockUntil := None\<rparr>"
  define u5 where "u5 = u\<lparr>loginAttempts := 5, lockUntil := Some (t5 + 30 * 60 * 1000)\<rparr>"
  define us1 where "us1 = updateOne users u (incLoginAttempts t1)"
  define us2 where "us2 = updateOne us1 u1 (incLoginAttempts t2)"
  define us3 where "us3 = updateOne us2 u2 (incLoginAttempts t3)"
  define us4 where "us4 = updateOne us3 u3 (incLoginAttempts t4)"
  define us5 where "us5 = updateOne us4 u4 (incLoginAttempts t5)"
  from fails have a1: "addresses em r1" and a2: "addresses em r2" and a3: "addresses em r3"
    and a4: "addresses em r4" and a5: "addresses em r5" by simp_all
  from fails have w1: "wrong_password compare u r1" and w2: "wrong_password compare u1 r2"
    and w3: "wrong_password compare u2 r3" and w4: "wrong_password compare u3 r4"
    and w5: "wrong_password compare u4 r5"
    by (simp_all add: wrong_password_def u1_def u2_def u3_def u4_def)
  have i1: "incLoginAttempts t1 u = u1"
    unfolding u1_def using start by (rule incLoginAttempts_start)
  have i2: "incLoginAttempts t2 u1 = u2"
    by (simp add: incLoginAttempts_unlocked u1_def u2_def)
  have i3: "incLoginAttempts t3 u2 = u3"
    by (simp add: incLoginAttempts_unlocked u2_def u3_def)
  have i4: "incLoginAttempts t4 u3 = u4"
    by (simp add: incLoginAttempts_unlocked u3_def u4_def)
  have i5: "incLoginAttempts t5 u4 = u5"
    by (simp add: incLoginAttempts_unlocked u4_def u5_def)
  have n1: "\<not> isLocked u t1" using start by (rule start_not_locked)
  have n2: "\<not> isLocked u1 t2" and n3: "\<not> isLocked u2 t3" and n4: "\<not> isLocked u3 t4"
    and n5: "\<not> isLocked u4 t5"
    by (simp_all add: isLocked_def u1_def u2_def u3_def u4_def)
  from failed_step [OF found n1 a1 w1, of e L] have
    s1: "login_handler e L compare users t1 r1 = (?R, us1)" and f1: "findOne us1 em = Some u1"
    by (simp_all add: us1_def i1)
  from failed_step [OF f1 n2 a2 w2, of e L] have
    s2: "login_handler e L compare us1 t2 r2 = (?R, us2)" and f2: "findOne us2 em = Some u2"
    by (simp_all add: us2_def i2)
  from failed_step [OF f2 n3 a3 w3, of e L] have
    s3: "login_handler e L compare us2 t3 r3 = (?R, us3)" and f3: "findOne us3 em = Some u3"
    by (simp_all add: us3_def i3)
  from failed_step [OF f3 n4 a4 w4, of e L] have
    s4: "login_handler e L compare us3 t4 r4 = (?R, us4)" and f4: "findOne us4 em = Some u4"
    by (simp_all add: us4_def i4)
  from failed_step [OF f4 n5 a5 w5, of e L] have
    s5: "login_handler e L compare us4 t5 r5 = (?R, us5)" and f5: "findOne us5 em = Some u5"
    by (simp_all add: us5_def i5)
  have run: "handler_run e L compare users
               [(t1, r1), (t2, r2), (t3, r3), (t4, r4), (t5, r5)] =
             ([?R, ?R, ?R, ?R, ?R], us5)"
    by (simp add: s1 s2 s3 s4 s5)
  then have eq: "users5 = us5" by (simp add: users5)
  have rep: "replicate 5 ?R = [?R, ?R, ?R, ?R, ?R]"
    by (simp add: numeral_eq_Suc)
  have locked: "isLocked u5 t6" using window by (simp add: isLocked_def u5_def)
  have lu: "lockUntil u5 = Some (t5 + 30 * 60 * 1000)" by (simp add: u5_def)
  from post_auth_login_locked [OF f5 locked sixth, of e L compare a]
  have p: "post_auth_login e L compare (a, us5) t6 r6 =
           (if 5 \<le> length (recent a t6 (identifier_of r6))
            then (rate_limited (Min (set (recent a t6 (identifier_of r6))) + 900000)
                    (Math_ceil_div
                       (Min (set (recent a t6 (identifier_of r6))) + 900000 - t6) 1000),
                  (a, us5))
            else (account_locked (Some (t5 + 30 * 60 * 1000)),
                  (a(identifier_of r6 \<mapsto> recent a t6 (identifier_of r6) @ [t6]), us5)))"
    unfolding lu .
  show ?thesis
    unfolding eq run rep using f5 p by (simp add: u5_def)
qed


lemma toLowerCase_john: "toLowerCase ''john@example.com'' = ''john@example.com''"
  by (simp add: toLowerCase_def is_upper_def)

text \<open>
  C2 as stated fails on the route.  Five wrong passwords for John at seconds 1 to 5, all
  under the email \<open>john@example.com\<close>: each is answered 401 and the fifth locks the
  account until second 1805.  The sixth request, at second 6 and with the correct
  password, is answered by the throttle, 429 RATE_LIMITED, not 403 ACCOUNT_LOCKED.
\<close>

theorem C2_counterexample:
  "fst (login_run demo_env demo_jwt demo_compare (empty_attempts, demo_users)
          (five_attempts @ [(6000, login_request ''john@example.com'' ''SecurePass123!'')])) =
     replicate 5 (json_error 401 ''Invalid credentials'' ''INVALID_CREDENTIALS'') @
       [rate_limited 901000 895] \<and>
   findOne (snd (snd (login_run demo_env demo_jwt demo_compare (empty_attempts, demo_users)
                        five_attempts))) ''john@example.com'' =
     Some (john\<lparr>loginAttempts := 5, lockUntil := Some 1805000\<rparr>) \<and>
   demo_compare ''SecurePass123!'' (password john) \<and>
   status (rate_limited 901000 895) = 429"
  by (simp add: five_attempts_def post_auth_login_def loginLimiter_def
      createLoginLimiter_def login_handler_def login_request_def truthy_def toLowerCase_john
      findOne_def updateOne_def demo_users_def john_def mia_def root_def demo_compare_def
      isLocked_def incLoginAttempts_def Let_def auditLog_def empty_attempts_def
      rate_limited_def json_error_def Math_min_def Math_ceil_div_def numeral_eq_Suc)


lemma addresses_login_request:
  "pw \<noteq> [] \<Longrightarrow> addresses ''john@example.com'' (login_request ''john@example.com'' pw)"
  by (simp add: addresses_def login_request_def truthy_def toLowerCase_john)

lemma wrong_login_request:
  "wrong_password demo_compare john (login_request em pw) = (pw \<noteq> ''SecurePass123!'')"
  by (auto simp: wrong_password_def demo_compare_def login_request_def john_def)

text \<open>
  Five wrong passwords for John at seconds 1 to 5 reach the handler; with the throttle's
  map empty, the correct password at second 6 is answered 403 ACCOUNT_LOCKED.
\<close>

theorem C2_lockout_witness:
  "post_auth_login demo_env demo_jwt demo_compare
     (empty_attempts, snd (handler_run demo_env demo_jwt demo_compare demo_users five_attempts))
     6000 (login_request ''john@example.com'' ''SecurePass123!'') =
     (account_locked (Some 1805000),
      (empty_attempts(''john@example.com'' \<mapsto> [6000]),
       snd (handler_run demo_env demo_jwt demo_compare demo_users five_attempts)))"
proof -
  have found: "findOne demo_users ''john@example.com'' = Some john"
    by (simp add: findOne_def demo_users_def john_def)
  have start: "(loginAttempts john = 0 \<and> lockUntil john = None) \<or>
               (\<exists>T. lockUntil john = Some T \<and> T < 1000)"
    by (simp add: john_def)
  have fails: "list_all (\<lambda>r. addresses ''john@example.com'' r \<and>
                    wrong_password demo_compare john r)
                 [login_request ''john@example.com'' ''wrong1'',
                  login_request ''john@example.com'' ''wrong2'',
                  login_request ''john@example.com'' ''wrong3'',
                  login_request ''john@example.com'' ''wrong4'',
                  login_request ''john@example.com'' ''wrong5'']"
    by (simp add: addresses_login_request wrong_login_request)
  have sixth: "addresses ''john@example.com''
      (login_request ''john@example.com'' ''SecurePass123!'')"
    by (simp add: addresses_login_request)
  have window: "(6000::int) < 5000 + 30 * 60 * 1000" by simp
  from C2_lockout [where compare = demo_compare and e = demo_env and L = demo_jwt
      and a = empty_attempts, OF found start fails sixth window refl]
  show ?thesis
    by (simp add: five_attempts_def recent_def recorded_def empty_attempts_def
        identifier_of_login_request)
qed

theorem C7_reset_on_success_witness:
  "findOne (snd (login_handler demo_env demo_jwt demo_compare
                   [john\<lparr>loginAttempts := 4\<rparr>, mia] 7000
                   (login_request ''john@example.com'' ''SecurePass123!'')))
     ''john@example.com'' =
     Some (john\<lparr>loginAttempts := 0, lastLogin := Some 7000, lockUntil := None\<rparr>)"
  using C7_reset_on_success [where compare = demo_compare
      and req = "login_request ''john@example.com'' ''SecurePass123!''"
      and users = "[john\<lparr>loginAttempts := 4\<rparr>, mia]"
      and u = "john\<lparr>loginAttempts := 4\<rparr>" and now = 7000
      and e = demo_env and L = demo_jwt]
  by (simp add: login_request_def truthy_def toLowerCase_john findOne_def john_def
      isLocked_def demo_compare_def)

theorem C8_expired_lock_restart_witness:
  "incLoginAttempts 2000000 (john\<lparr>loginAttempts := 5, lockUntil := Some 1805000\<rparr>) =
     john\<lparr>loginAttempts := 1, lockUntil := None\<rparr> \<and>
   findOne (snd (login_handler demo_env demo_jwt demo_compare
                   [john\<lparr>loginAttempts := 5, lockUntil := Some 1805000\<rparr>, mia] 2000000
                   (login_request ''john@example.com'' ''wrong6'')))
     ''john@example.com'' =
     Some (john\<lparr>loginAttempts := 1, lockUntil := None\<rparr>)"
  using C8_expired_lock_restart [where compare = demo_compare
      and req = "login_request ''john@example.com'' ''wrong6''"
      and users = "[john\<lparr>loginAttempts := 5, lockUntil := Some 1805000\<rparr>, mia]"
      and u = "john\<lparr>loginAttempts := 5, lockUntil := Some 1805000\<rparr>"
      and t = 1805000 and now = 2000000 and e = demo_env and L = demo_jwt]
  by (simp add: login_request_def truthy_def toLowerCase_john findOne_def john_def
      demo_compare_def)

section \<open>Properties of the refresh secret\<close>

lemma refresh_secret_fallback:
  "\<not> truthy (REFRESH_SECRET e) \<Longrightarrow> refresh_secret e = JWT_SECRET e"
  by (simp add: refresh_secret_def or_else_def)

lemma refresh_secret_same:
  "refresh_secret (e\<lparr>REFRESH_SECRET := JWT_SECRET e\<rparr>) = JWT_SECRET e"
  by (simp add: refresh_secret_def or_else_def)

text \<open>
  C4 (as amended).  If \<open>REFRESH_SECRET\<close> is unset or empty, issuing and verifying a
  refresh token do not fail on that account: the secret both routes use is
  \<open>JWT_SECRET\<close>, the login handler and the refresh handler answer exactly as they would
  with \<open>REFRESH_SECRET\<close> set to the value of \<open>JWT_SECRET\<close>, and signing and verifying
  with the refresh secret is signing and verifying with the access secret.
\<close>

theorem C4_refresh_secret_fallback:
  assumes "\<not> truthy (REFRESH_SECRET e)"
  shows "refresh_secret e = JWT_SECRET e \<and>
         login_handler e L compare users now req =
           login_handler (e\<lparr>REFRESH_SECRET := JWT_SECRET e\<rparr>) L compare users now req \<and>
         refresh_token_handler e L users now req =
           refresh_token_handler (e\<lparr>REFRESH_SECRET := JWT_SECRET e\<rparr>) L users now req \<and>
         jwt_sign L payload (refresh_secret e) ''7d'' now =
           jwt_sign L payload (JWT_SECRET e) ''7d'' now \<and>
         jwt_verify L tok (refresh_secret e) now = jwt_verify L tok (JWT_SECRET e) now"
proof -
  have a: "refresh_secret e = JWT_SECRET e"
    using assms by (rule refresh_secret_fallback)
  have j: "JWT_SECRET (e\<lparr>REFRESH_SECRET := JWT_SECRET e\<rparr>) = JWT_SECRET e" by simp
  have b: "login_handler e L compare users now req =
           login_handler (e\<lparr>REFRESH_SECRET := JWT_SECRET e\<rparr>) L compare users now req"
    unfolding login_handler_def a refresh_secret_same j by (rule refl)
  have c: "refresh_token_handler e L users now req =
           refresh_token_handler (e\<lparr>REFRESH_SECRET := JWT_SECRET e\<rparr>) L users now req"
    unfolding refresh_token_handler_def a refresh_secret_same j by (rule refl)
  show ?thesis using a b c by simp
qed

text \<open>
  C4 as stated fails.  With \<open>REFRESH_SECRET\<close> unset and \<open>JWT_SECRET = access-secret\<close>,
  John's login is answered 200 and its refresh token is the one signed with the access
  secret; the refresh route accepts that token and answers 200.
\<close>

theorem C4_counterexample:
  "REFRESH_SECRET demo_env = None \<and>
   fst (login_handler demo_env demo_jwt demo_compare demo_users 7000
          (login_request ''john@example.com'' ''SecurePass123!'')) =
     login_successful ''u1.15m.access-secret'' ''u1.7d.access-secret'' john \<and>
   status (login_successful ''u1.15m.access-secret'' ''u1.7d.access-secret'' john) = 200 \<and>
   jwt_sign demo_jwt [(''id'', JStr ''u1'')] (JWT_SECRET demo_env) ''7d'' 7000 =
     Inr ''u1.7d.access-secret'' \<and>
   refresh_token_handler demo_env demo_jwt demo_users 8000
     (refresh_request ''u1.7d.access-secret'') =
     \<lparr>status = 200,
      json = [(''message'', JStr ''Token refreshed''),
              (''accessToken'', JStr ''u1.15m.access-secret'')],
      set_cookies = [(''accessToken'', ''u1.15m.access-secret'')]\<rparr>"
  by (simp add: demo_env_def login_handler_def login_request_def truthy_def
      toLowerCase_john findOne_def findById_def demo_users_def john_def mia_def root_def
      demo_compare_def isLocked_def Let_def jwt_sign_def jwt_verify_def demo_jwt_def
      decoded_id_def refresh_secret_def or_else_def login_successful_def
      refresh_token_handler_def refresh_request_def)

theorem C4_refresh_secret_fallback_witness:
  "refresh_secret demo_env = Some ''access-secret'' \<and>
   refresh_token_handler demo_env demo_jwt demo_users 8000
     (refresh_request ''u1.7d.access-secret'') =
   refresh_token_handler
     \<lparr>JWT_SECRET = Some ''access-secret'', REFRESH_SECRET = Some ''access-secret'',
      NODE_ENV = None\<rparr> demo_jwt demo_users 8000 (refresh_request ''u1.7d.access-secret'')"
  using C4_refresh_secret_fallback [of demo_env demo_jwt demo_compare demo_users 8000
      "refresh_request ''u1.7d.access-secret''"]
  by (simp add: demo_env_def truthy_def)

section \<open>Properties of the reservation store adapter\<close>

text \<open>Whatever the row, the object \<open>mapRow\<close> builds has the field names of the
  contract: \<open>_id\<close> and the paths of the document schema.\<close>

lemma mapRow_fields: "map fst (mapRow row) = reservation_fields"
  by (simp add: mapRow_def reservation_fields_def reservationSchema_def)

lemma no_row_update:
  "\<not> list_ex (has_id n) rs \<Longrightarrow>
     filter (has_id n) rs = [] \<and>
     map (\<lambda>row. if has_id n row then f row else row) rs = rs"
  by (induction rs) auto

text \<open>
  C9.  On the relational backend, let \<open>findByIdAndUpdate\<close> be called with an id that
  is truthy and that PostgreSQL reads as the 32-bit integer \<open>n\<close>, while no row of the
  table has id \<open>n\<close>.  It resolves to the caller's update object as it stands, and leaves
  the table as it is: \<open>save\<close> skips \<open>mapRow\<close> when \<open>UPDATE ... RETURNING *\<close> returns no
  row and returns the instance built from \<open>update\<close>.
\<close>

theorem C9_update_without_row:
  assumes "js_truthy i" and "id_param i = Some n" and "\<not> list_ex (has_id n) (rows db)"
  shows "findByIdAndUpdate True M db now i update = Some (JObj update, db)"
proof -
  from no_row_update [OF assms(3)] have
    "\<And>sets. sql_update db sets i = Some ([], db)"
    by (simp add: sql_update_def assms(2))
  then show ?thesis
    using assms(1) by (simp add: findByIdAndUpdate_def save_def new_Reservation_def Let_def)
qed

text \<open>What PostgreSQL reads as an id, and what it rejects.\<close>

lemma id_param_examples:
  "id_param (JStr ''42'') = Some 42"
  "id_param (JStr ''-1'') = Some (- 1)"
  "id_param (JStr ''+1'') = Some 1"
  "id_param (JStr '' 42 '') = Some 42"
  "id_param (JStr ''2147483647'') = Some 2147483647"
  "id_param (JStr ''2147483648'') = None"
  "id_param (JStr ''-2147483648'') = Some (- 2147483648)"
  "id_param (JStr ''-2147483649'') = None"
  "id_param (JStr ''99999999999'') = None"
  "id_param (JStr ''4 2'') = None"
  "id_param (JStr ''abc'') = None"
  "id_param (JStr []) = None"
  "id_param (JNum 99999999999) = None"
  by (simp_all add: id_param_def parse_int4_def trim_blanks_def is_blank_def digits_value_def
      is_digit_def in_int4_def)

lemma parse_42: "id_param (JStr ''42'') = Some 42"
  by (rule id_param_examples)

text \<open>
  An id outside the 32-bit range makes the statement fail: the adapter raises and the
  route answers 500, so the case of the theorem does not arise there.
\<close>

lemma out_of_range_raises:
  "findByIdAndUpdate True a_mongo a_table 5000 (JStr ''99999999999'')
     [(''status'', JStr ''cancelled''), (''updatedAt'', JNum 5000)] = None \<and>
   fst (put_admin_reservation True a_mongo a_table 5000
          (status_request ''99999999999'' ''cancelled'')) =
     json_error 500 ''Failed to update reservation'' ''UPDATE_ERROR''"
  by (simp add: findByIdAndUpdate_def save_def new_Reservation_def sql_update_def
      id_param_examples js_truthy_def put_admin_reservation_def status_request_def Let_def)

text \<open>
  With one reservation of id 1 in the table, setting the status of id 42 resolves to the
  object with the two fields \<open>status\<close> and \<open>updatedAt\<close>, not the fields of the contract;
  \<open>findByIdAndDelete\<close> of the same id resolves to \<open>null\<close>, and the route answers 200
  with the two-field object where a falsy result would have made it answer 404.
\<close>

theorem C9_update_without_row_witness:
  "findByIdAndUpdate True a_mongo a_table 5000 (JStr ''42'')
     [(''status'', JStr ''cancelled''), (''updatedAt'', JNum 5000)] =
     Some (JObj [(''status'', JStr ''cancelled''), (''updatedAt'', JNum 5000)], a_table) \<and>
   map fst [(''status'', JStr ''cancelled''), (''updatedAt'', JNum 5000)] \<noteq>
     reservation_fields \<and>
   findByIdAndDelete True a_mongo a_table (JStr ''42'') = Some (JNull, a_table) \<and>
   fst (put_admin_reservation True a_mongo a_table 5000 (status_request ''42'' ''cancelled'')) =
     \<lparr>status = 200,
      json = [(''message'', JStr ''Reservation updated''),
              (''reservation'',
               JObj [(''status'', JStr ''cancelled''), (''updatedAt'', JNum 5000)])],
      set_cookies = []\<rparr>"
proof -
  have t: "js_truthy (JStr ''42'')" by (simp add: js_truthy_def)
  have n: "\<not> list_ex (has_id 42) (rows a_table)"
    by (simp add: a_table_def a_row_def has_id_def js_get_def)
  note u = C9_update_without_row [OF t parse_42 n, of a_mongo 5000
      "[(''status'', JStr ''cancelled''), (''updatedAt'', JNum 5000)]"]
  have d: "findByIdAndDelete True a_mongo a_table (JStr ''42'') = Some (JNull, a_table)"
    using n by (simp add: findByIdAndDelete_def sql_delete_def parse_42 a_table_def a_row_def
        has_id_def js_get_def)
  have f: "map fst [(''status'', JStr ''cancelled''), (''updatedAt'', JNum 5000)] \<noteq>
     reservation_fields"
    by (simp add: reservation_fields_def reservationSchema_def)
  have r: "fst (put_admin_reservation True a_mongo a_table 5000
                  (status_request ''42'' ''cancelled'')) =
     \<lparr>status = 200,
      json = [(''message'', JStr ''Reservation updated''),
              (''reservation'',
               JObj [(''status'', JStr ''cancelled''), (''updatedAt'', JNum 5000)])],
      set_cookies = []\<rparr>"
    using u by (simp add: put_admin_reservation_def status_request_def js_truthy_def)
  show ?thesis using u d f r by simp
qed

end
